theory Spec2Isabelle
  imports Complex_Main
begin

text \<open>
  The query and search layer of the job-listing API: the handlers of \<open>routes/jobs.js\<close> and
  \<open>routes/search.js\<close> over the schema of \<open>models/Job.js\<close>. The handlers are translated
  as functions from the collection and the request to the collection afterwards and the
  response; the filter and sort objects they build are records; the store's answers to
  them are modelled after MongoDB's query operators.
\<close>

section \<open>JavaScript values used by the route handlers\<close>

text \<open>
  Strings are lists of 8-bit characters (the Latin-1 range of JavaScript's code units).
  Time stamps are milliseconds since the epoch, as \<open>Date.getTime()\<close> returns them.
  The numbers that \<open>Number\<close> and \<open>Math.ceil\<close> produce are rationals extended by \<open>NaN\<close>
  and the two infinities; the rounding of IEEE doubles is not modelled there.
\<close>

datatype jsnum = Num rat | NaN | PInf | NInf

text \<open>The comparison \<open>a < b\<close> of two numbers: false as soon as one side is \<open>NaN\<close>.\<close>

fun js_lt :: "jsnum \<Rightarrow> jsnum \<Rightarrow> bool" where
  "js_lt NaN _ = False"
| "js_lt _ NaN = False"
| "js_lt (Num a) (Num b) = (a < b)"
| "js_lt (Num _) PInf = True"
| "js_lt (Num _) NInf = False"
| "js_lt PInf _ = False"
| "js_lt NInf NInf = False"
| "js_lt NInf _ = True"

text \<open>White space as \<open>String.prototype.trim\<close> and \<open>parseInt\<close> strip it
  (tab, line feed, vertical tab, form feed, carriage return, space, no-break space).\<close>

definition is_js_space :: "char \<Rightarrow> bool" where
  "is_js_space c = ((of_char c :: nat) \<in> {9, 10, 11, 12, 13, 32, 160})"

definition trim :: "string \<Rightarrow> string" where
  "trim s = rev (dropWhile is_js_space (rev (dropWhile is_js_space s)))"

text \<open>\<open>s.split(',')\<close>: the empty string splits into one empty piece.\<close>

fun split_comma :: "string \<Rightarrow> string list" where
  "split_comma [] = [[]]"
| "split_comma (c # cs) =
     (if c = CHR '','' then [] # split_comma cs
      else (case split_comma cs of [] \<Rightarrow> [[c]] | w # ws \<Rightarrow> (c # w) # ws))"

text \<open>The value of a character as a digit: 0 to 9, then letters (either case) from 10;
  36 for every other character, which is a digit in no radix.\<close>

definition digit_val :: "char \<Rightarrow> nat" where
  "digit_val c =
     (let n = (of_char c :: nat) in
      if 48 \<le> n \<and> n \<le> 57 then n - 48
      else if 97 \<le> n \<and> n \<le> 122 then n - 87
      else if 65 \<le> n \<and> n \<le> 90 then n - 55
      else 36)"

definition is_digit_in :: "nat \<Rightarrow> char \<Rightarrow> bool" where
  "is_digit_in b c = (digit_val c < b)"

definition digits_value :: "nat \<Rightarrow> string \<Rightarrow> nat" where
  "digits_value b s = foldl (\<lambda>a c. a * b + digit_val c) 0 s"

definition all_digits :: "nat \<Rightarrow> string \<Rightarrow> bool" where
  "all_digits b s = (s \<noteq> [] \<and> list_all (is_digit_in b) s)"

text \<open>An optional sign in front of a numeral: whether it is a minus, and the rest.\<close>

fun strip_sign :: "string \<Rightarrow> bool \<times> string" where
  "strip_sign [] = (False, [])"
| "strip_sign (c # cs) =
     (if c = CHR ''-'' then (True, cs)
      else if c = CHR ''+'' then (False, cs)
      else (False, c # cs))"

fun has_prefix2 :: "char \<Rightarrow> char \<Rightarrow> string \<Rightarrow> bool" where
  "has_prefix2 l u (a # b # _) = (a = CHR ''0'' \<and> (b = l \<or> b = u))"
| "has_prefix2 l u _ = False"

text \<open>
  \<open>parseInt(s)\<close> with no radix: leading white space is skipped, a sign is read, a
  \<open>0x\<close> prefix selects radix 16, and the longest run of digits is the value; anything
  after it is ignored. No digit at all gives \<open>NaN\<close>, here \<open>None\<close>.
\<close>

definition parseInt :: "string \<Rightarrow> int option" where
  "parseInt s =
     (let (neg, u) = strip_sign (dropWhile is_js_space s);
          hex = has_prefix2 (CHR ''x'') (CHR ''X'') u;
          b = (if hex then 16 else 10);
          ds = takeWhile (is_digit_in b) (if hex then drop 2 u else u)
      in if ds = [] then None
         else Some (if neg then - int (digits_value b ds) else int (digits_value b ds)))"

text \<open>
  The exponent part of a decimal literal, from its \<open>e\<close> on: absent it is 0; present it
  needs digits after an optional sign.
\<close>

definition exponent_of :: "string \<Rightarrow> int option" where
  "exponent_of r =
     (case r of [] \<Rightarrow> Some 0
      | _ # x \<Rightarrow>
          (let (neg, ds) = strip_sign x
           in if all_digits 10 ds
              then Some (if neg then - int (digits_value 10 ds) else int (digits_value 10 ds))
              else None))"

definition scale10 :: "rat \<Rightarrow> int \<Rightarrow> rat" where
  "scale10 v e = (if 0 \<le> e then v * 10 ^ nat e else v / 10 ^ nat (- e))"

text \<open>An unsigned decimal literal: digits, an optional fraction, an optional exponent;
  at least one digit on one side of the point.\<close>

definition decimal_value :: "string \<Rightarrow> rat option" where
  "decimal_value u =
     (let not_e = (\<lambda>c. c \<noteq> CHR ''e'' \<and> c \<noteq> CHR ''E'');
          m = takeWhile not_e u;
          ip = takeWhile (\<lambda>c. c \<noteq> CHR ''.'') m;
          fr = dropWhile (\<lambda>c. c \<noteq> CHR ''.'') m;
          fp = (case fr of [] \<Rightarrow> [] | _ # t \<Rightarrow> t)
      in if list_all (is_digit_in 10) ip \<and> list_all (is_digit_in 10) fp \<and> ip @ fp \<noteq> []
         then (case exponent_of (dropWhile not_e u) of
                 None \<Rightarrow> None
               | Some e \<Rightarrow>
                   Some (scale10 (of_nat (digits_value 10 (ip @ fp))) (e - int (length fp))))
         else None)"

text \<open>
  \<open>Number(s)\<close>, the conversion that a comparison of a string with a number applies:
  the string is trimmed; empty it is 0; a \<open>0x\<close>, \<open>0o\<close> or \<open>0b\<close> literal carries no sign;
  otherwise it is a signed decimal literal or \<open>Infinity\<close>; everything else is \<open>NaN\<close>.
\<close>

definition to_number :: "string \<Rightarrow> jsnum" where
  "to_number s =
     (let t = trim s in
      if t = [] then Num 0
      else if has_prefix2 (CHR ''x'') (CHR ''X'') t \<and> all_digits 16 (drop 2 t)
        then Num (of_nat (digits_value 16 (drop 2 t)))
      else if has_prefix2 (CHR ''o'') (CHR ''O'') t \<and> all_digits 8 (drop 2 t)
        then Num (of_nat (digits_value 8 (drop 2 t)))
      else if has_prefix2 (CHR ''b'') (CHR ''B'') t \<and> all_digits 2 (drop 2 t)
        then Num (of_nat (digits_value 2 (drop 2 t)))
      else
        (let (neg, u) = strip_sign t in
         if u = ''Infinity'' then (if neg then NInf else PInf)
         else (case decimal_value u of
                 None \<Rightarrow> NaN
               | Some v \<Rightarrow> Num (if neg then - v else v))))"

subsection \<open>Values of \<open>JSON.parse\<close>\<close>

text \<open>
  A value that \<open>JSON.parse\<close> returns. A number is the double the handler receives, as a
  rational. Its text form (\<open>Number.prototype.toString\<close>: the shortest digits that read
  back as the same double, in exponent notation from \<open>1e21\<close> on and below \<open>1e-6\<close>) is
  the runtime's and is a parameter \<open>nt\<close> of the conversions below.
\<close>

datatype json =
  JNull | JBool bool | JNum rat | JStr string | JArr "json list" | JObj "(string \<times> json) list"

text \<open>Truthiness, as \<open>if (v)\<close> and \<open>a || b\<close> test it: \<open>null\<close>, \<open>false\<close>, 0 and the empty
  string are falsy; every array and every object is truthy.\<close>

fun json_truthy :: "json \<Rightarrow> bool" where
  "json_truthy JNull = False"
| "json_truthy (JBool b) = b"
| "json_truthy (JNum x) = (x \<noteq> 0)"
| "json_truthy (JStr s) = (s \<noteq> [])"
| "json_truthy (JArr xs) = True"
| "json_truthy (JObj kvs) = True"

text \<open>\<open>Array.prototype.join\<close> with the separator \<open>,\<close>.\<close>

fun join_comma :: "string list \<Rightarrow> string" where
  "join_comma [] = []"
| "join_comma [s] = s"
| "join_comma (s # t # ss) = s @ CHR '','' # join_comma (t # ss)"

text \<open>
  \<open>String(v)\<close>, the conversion that \<open>parseInt(v)\<close> applies to its argument first. An array
  is the join of its elements, where \<open>null\<close> counts as the empty string; an object that
  \<open>JSON.parse\<close> made is \<open>[object Object]\<close>. The conversion of an object goes through its
  \<open>toString\<close> method: an object with a key \<open>toString\<close> of its own has a JSON value, which
  is no function, in that place, and the conversion throws a \<open>TypeError\<close>; so does the
  conversion of an array that holds such an object. \<open>text_throws\<close> says when the
  conversion throws; \<open>to_text\<close> is the text when it does not.
\<close>

fun text_throws :: "json \<Rightarrow> bool" where
  "text_throws (JArr xs) = list_ex text_throws xs"
| "text_throws (JObj kvs) = list_ex (\<lambda>kv. fst kv = ''toString'') kvs"
| "text_throws v = False"

fun to_text :: "(rat \<Rightarrow> string) \<Rightarrow> json \<Rightarrow> string" where
  "to_text nt JNull = ''null''"
| "to_text nt (JBool b) = (if b then ''true'' else ''false'')"
| "to_text nt (JNum x) = nt x"
| "to_text nt (JStr s) = s"
| "to_text nt (JArr xs) = join_comma (map (\<lambda>v. if v = JNull then [] else to_text nt v) xs)"
| "to_text nt (JObj kvs) = ''[object Object]''"

subsection \<open>Dates\<close>

text \<open>
  A \<open>Date\<close> holds a time value of at most 8 640 000 000 000 000 ms on either side of the
  epoch. \<open>new Date(t)\<close> for an integer \<open>t\<close> beyond that range is an invalid date, here
  \<open>None\<close>.
\<close>

definition max_time :: int where
  "max_time = 8640000000000000"

definition new_date :: "int \<Rightarrow> int option" where
  "new_date t = (if \<bar>t\<bar> \<le> max_time then Some t else None)"

section \<open>The job collection\<close>

text \<open>
  A stored job document (\<open>models/Job.js\<close>). The enumerated fields are strings, as the
  schema stores them; \<open>salary.min\<close> and \<open>salary.max\<close>, \<open>experienceLevel\<close>, \<open>industry\<close>
  and \<open>expiryDate\<close> may be missing. The collection is the list of its documents in the
  store's natural order.
\<close>

record job =
  job_id :: nat
  title :: string
  company :: string
  location :: string
  description :: string
  salary_min :: "rat option"
  salary_max :: "rat option"
  jobType :: string
  experienceLevel :: "string option"
  remote :: string
  industry :: "string option"
  skills :: "string list"
  status :: string
  postedDate :: int
  expiryDate :: "int option"
  views :: nat
  applications :: nat

subsection \<open>The filter object\<close>

text \<open>
  The filter the handlers build, key by key. A key that is not set is \<open>None\<close>. The value
  of \<open>$gte\<close> and \<open>$lte\<close> on a salary is what \<open>parseInt\<close> returned (\<open>None\<close> is \<open>NaN\<close>); on
  \<open>postedDate\<close> it is what \<open>new Date\<close> returned (\<open>None\<close> is an invalid date).
\<close>

record salary_cond =
  min_gte :: "int option option"
  max_lte :: "int option option"

record date_cond =
  date_gte :: "int option option"
  date_lte :: "int option option"

record job_filter =
  f_text :: "string option"
  f_status :: string
  f_jobType :: "string option"
  f_remote :: "string option"
  f_experienceLevel :: "string option"
  f_industry :: "string option"
  f_location :: "string option"
  f_company :: "string option"
  f_salary :: "salary_cond option"
  f_skills :: "string list option"
  f_postedDate :: "date_cond option"

datatype sort_key = ByField string int | ByTextScore

subsection \<open>What the store and the runtime decide\<close>

text \<open>
  The handlers run on MongoDB through Mongoose, which are not part of the repository.
  What only they decide is a parameter of the model:
  \<^item> \<open>regex_ok\<close>, \<open>regex_i\<close>: whether a pattern with regular-expression syntax compiles,
    and whether it matches a string under the option \<open>i\<close>;
  \<^item> \<open>text_score\<close>: the score of a document for a \<open>$text\<close> search, \<open>None\<close> when the
    document matches no term;
  \<^item> \<open>field_le\<close>: the store's ascending order of two documents on a field path;
  \<^item> \<open>date_parse\<close>: \<open>new Date(s).getTime()\<close> for a string \<open>s\<close>, \<open>None\<close> for an invalid
    date;
  \<^item> \<open>number_text\<close>: the text form of a number (\<open>String(x)\<close>);
  \<^item> \<open>salary_by_path\<close>: whether the nested condition
    \<open>{salary: {min: {$gte: n}}}\<close> is read as conditions on the paths \<open>salary.min\<close> and
    \<open>salary.max\<close>, or as equality with that literal document, which no stored salary
    equals. Mongoose and MongoDB read it the second way;
  \<^item> \<open>fails\<close>: whether a call of the given kind is rejected or lost (every awaited call
    may throw);
  \<^item> \<open>reached_before_failure\<close>: the documents that an \<open>updateMany\<close> had already written
    when it failed. The store writes document by document and a reply can be lost after
    the last write, so a failed call may have reached none, some or all of them.
\<close>

datatype store_call =
  Find | Aggregate | CountDocuments | UpdateMany | Distinct | Save | FindByIdAndUpdate

record env =
  regex_ok :: "string \<Rightarrow> bool"
  regex_i :: "string \<Rightarrow> string \<Rightarrow> bool"
  text_score :: "string \<Rightarrow> job \<Rightarrow> rat option"
  field_le :: "string \<Rightarrow> job \<Rightarrow> job \<Rightarrow> bool"
  date_parse :: "string \<Rightarrow> int option"
  number_text :: "rat \<Rightarrow> string"
  salary_by_path :: bool
  fails :: "store_call \<Rightarrow> bool"
  reached_before_failure :: "job \<Rightarrow> bool"

datatype store_error = StoreError

subsection \<open>Matching\<close>

text \<open>
  A pattern made of letters, digits and spaces only has no regular-expression syntax:
  with the option \<open>i\<close> it matches exactly the strings that contain it, letter case
  ignored. Every other pattern is the regular-expression engine's business.
\<close>

definition ci_key :: "char \<Rightarrow> nat" where
  "ci_key c = (let n = (of_char c :: nat) in if 65 \<le> n \<and> n \<le> 90 then n + 32 else n)"

definition plain_char :: "char \<Rightarrow> bool" where
  "plain_char c =
     (let n = (of_char c :: nat) in
      (48 \<le> n \<and> n \<le> 57) \<or> (65 \<le> n \<and> n \<le> 90) \<or> (97 \<le> n \<and> n \<le> 122) \<or> n = 32)"

definition plain_text :: "string \<Rightarrow> bool" where
  "plain_text p = list_all plain_char p"

fun ci_prefix :: "string \<Rightarrow> string \<Rightarrow> bool" where
  "ci_prefix [] _ = True"
| "ci_prefix (p # ps) [] = False"
| "ci_prefix (p # ps) (c # cs) = (ci_key p = ci_key c \<and> ci_prefix ps cs)"

fun ci_contains :: "string \<Rightarrow> string \<Rightarrow> bool" where
  "ci_contains p [] = ci_prefix p []"
| "ci_contains p (c # cs) = (ci_prefix p (c # cs) \<or> ci_contains p cs)"

definition regex_test :: "env \<Rightarrow> string \<Rightarrow> string \<Rightarrow> bool" where
  "regex_test e p s = (if plain_text p then ci_contains p s else regex_i e p s)"

definition pattern_ok :: "env \<Rightarrow> string \<Rightarrow> bool" where
  "pattern_ok e p = (plain_text p \<or> regex_ok e p)"

definition opt_is :: "'a option \<Rightarrow> 'a \<Rightarrow> bool" where
  "opt_is c v = (case c of None \<Rightarrow> True | Some x \<Rightarrow> v = x)"

definition opt_regex :: "env \<Rightarrow> string option \<Rightarrow> string option \<Rightarrow> bool" where
  "opt_regex e c v =
     (case c of None \<Rightarrow> True
      | Some p \<Rightarrow> (case v of None \<Rightarrow> False | Some s \<Rightarrow> regex_test e p s))"

text \<open>\<open>$gte\<close> and \<open>$lte\<close> against a number: a missing field and a \<open>NaN\<close> bound match
  nothing.\<close>

definition num_gte :: "rat option \<Rightarrow> int option \<Rightarrow> bool" where
  "num_gte v b = (case (v, b) of (Some x, Some n) \<Rightarrow> of_int n \<le> x | _ \<Rightarrow> False)"

definition num_lte :: "rat option \<Rightarrow> int option \<Rightarrow> bool" where
  "num_lte v b = (case (v, b) of (Some x, Some n) \<Rightarrow> x \<le> of_int n | _ \<Rightarrow> False)"

definition salary_matches :: "env \<Rightarrow> salary_cond option \<Rightarrow> job \<Rightarrow> bool" where
  "salary_matches e c j =
     (case c of None \<Rightarrow> True
      | Some sc \<Rightarrow>
          salary_by_path e
          \<and> (case min_gte sc of None \<Rightarrow> True | Some b \<Rightarrow> num_gte (salary_min j) b)
          \<and> (case max_lte sc of None \<Rightarrow> True | Some b \<Rightarrow> num_lte (salary_max j) b))"

definition date_matches :: "date_cond option \<Rightarrow> job \<Rightarrow> bool" where
  "date_matches c j =
     (case c of None \<Rightarrow> True
      | Some dc \<Rightarrow>
          (case date_gte dc of None \<Rightarrow> True | Some None \<Rightarrow> False
           | Some (Some d) \<Rightarrow> d \<le> postedDate j)
          \<and> (case date_lte dc of None \<Rightarrow> True | Some None \<Rightarrow> False
              | Some (Some d) \<Rightarrow> postedDate j \<le> d))"

definition skills_match :: "string list option \<Rightarrow> job \<Rightarrow> bool" where
  "skills_match c j =
     (case c of None \<Rightarrow> True | Some xs \<Rightarrow> list_ex (\<lambda>s. s \<in> set (skills j)) xs)"

definition text_matches :: "env \<Rightarrow> string option \<Rightarrow> job \<Rightarrow> bool" where
  "text_matches e c j = (case c of None \<Rightarrow> True | Some q \<Rightarrow> text_score e q j \<noteq> None)"

definition matches :: "env \<Rightarrow> job_filter \<Rightarrow> job \<Rightarrow> bool" where
  "matches e f j =
     (text_matches e (f_text f) j
      \<and> status j = f_status f
      \<and> opt_is (f_jobType f) (jobType j)
      \<and> opt_is (f_remote f) (remote j)
      \<and> (case f_experienceLevel f of None \<Rightarrow> True | Some x \<Rightarrow> experienceLevel j = Some x)
      \<and> opt_regex e (f_industry f) (industry j)
      \<and> opt_regex e (f_location f) (Some (location j))
      \<and> opt_regex e (f_company f) (Some (company j))
      \<and> salary_matches e (f_salary f) j
      \<and> skills_match (f_skills f) j
      \<and> date_matches (f_postedDate f) j)"

text \<open>A filter the store accepts: its patterns compile and its dates are valid (Mongoose
  refuses to cast an invalid date).\<close>

definition opt_pattern_ok :: "env \<Rightarrow> string option \<Rightarrow> bool" where
  "opt_pattern_ok e c = (case c of None \<Rightarrow> True | Some p \<Rightarrow> pattern_ok e p)"

definition dates_valid :: "date_cond option \<Rightarrow> bool" where
  "dates_valid c =
     (case c of None \<Rightarrow> True
      | Some dc \<Rightarrow> date_gte dc \<noteq> Some None \<and> date_lte dc \<noteq> Some None)"

definition filter_ok :: "env \<Rightarrow> job_filter \<Rightarrow> bool" where
  "filter_ok e f =
     (opt_pattern_ok e (f_industry f) \<and> opt_pattern_ok e (f_location f)
      \<and> opt_pattern_ok e (f_company f) \<and> dates_valid (f_postedDate f))"

subsection \<open>Sorting, skipping and limiting\<close>

definition score_of :: "env \<Rightarrow> job_filter \<Rightarrow> job \<Rightarrow> rat" where
  "score_of e f j =
     (case f_text f of None \<Rightarrow> 0
      | Some q \<Rightarrow> (case text_score e q j of None \<Rightarrow> 0 | Some s \<Rightarrow> s))"

text \<open>Whether document \<open>a\<close> sorts strictly before \<open>b\<close> on one key: a field in the given
  direction (negative is descending), or the text score, always descending.\<close>

fun key_before :: "env \<Rightarrow> job_filter \<Rightarrow> sort_key \<Rightarrow> job \<Rightarrow> job \<Rightarrow> bool" where
  "key_before e f (ByField p d) a b =
     (if d < 0 then \<not> field_le e p a b else \<not> field_le e p b a)"
| "key_before e f ByTextScore a b = (score_of e f b < score_of e f a)"

fun comes_before :: "env \<Rightarrow> job_filter \<Rightarrow> sort_key list \<Rightarrow> job \<Rightarrow> job \<Rightarrow> bool" where
  "comes_before e f [] a b = False"
| "comes_before e f (k # ks) a b =
     (key_before e f k a b \<or> (\<not> key_before e f k b a \<and> comes_before e f ks a b))"

text \<open>The sort is modelled as a stable insertion sort: documents that no key separates
  stay in the store's order.\<close>

fun insert_sorted :: "('a \<Rightarrow> 'a \<Rightarrow> bool) \<Rightarrow> 'a \<Rightarrow> 'a list \<Rightarrow> 'a list" where
  "insert_sorted lt x [] = [x]"
| "insert_sorted lt x (y # ys) = (if lt y x then y # insert_sorted lt x ys else x # y # ys)"

definition sort_by :: "('a \<Rightarrow> 'a \<Rightarrow> bool) \<Rightarrow> 'a list \<Rightarrow> 'a list" where
  "sort_by lt xs = foldr (insert_sorted lt) xs []"

definition matching_sorted :: "env \<Rightarrow> job list \<Rightarrow> job_filter \<Rightarrow> sort_key list \<Rightarrow> job list" where
  "matching_sorted e store f ks = sort_by (comes_before e f ks) (filter (matches e f) store)"

text \<open>
  \<open>find().skip(s).limit(l)\<close>: a \<open>NaN\<close> or a negative skip is rejected; a limit of 0 is
  no limit and a negative limit counts as its absolute value. The pipeline stages
  \<open>$skip\<close> and \<open>$limit\<close> reject a negative skip and a limit that is not positive.
\<close>

definition window_find :: "int option \<Rightarrow> int option \<Rightarrow> 'a list \<Rightarrow> store_error + 'a list" where
  "window_find s l xs =
     (case (s, l) of
        (Some sk, Some lm) \<Rightarrow>
          if sk < 0 then Inl StoreError
          else Inr (if lm = 0 then drop (nat sk) xs else take (nat \<bar>lm\<bar>) (drop (nat sk) xs))
      | _ \<Rightarrow> Inl StoreError)"

definition window_aggregate :: "int option \<Rightarrow> int option \<Rightarrow> 'a list \<Rightarrow> store_error + 'a list" where
  "window_aggregate s l xs =
     (case (s, l) of
        (Some sk, Some lm) \<Rightarrow>
          if sk < 0 \<or> lm \<le> 0 then Inl StoreError
          else Inr (take (nat lm) (drop (nat sk) xs))
      | _ \<Rightarrow> Inl StoreError)"

definition find_jobs ::
  "env \<Rightarrow> job list \<Rightarrow> job_filter \<Rightarrow> sort_key list \<Rightarrow> int option \<Rightarrow> int option
   \<Rightarrow> store_error + job list" where
  "find_jobs e store f ks s l =
     (if fails e Find \<or> \<not> filter_ok e f then Inl StoreError
      else window_find s l (matching_sorted e store f ks))"

text \<open>The search pipeline: \<open>$match\<close>, \<open>$addFields\<close> of the score when a text query is
  present, \<open>$sort\<close> (which rejects an empty sort object), \<open>$skip\<close>, \<open>$limit\<close>.\<close>

definition add_score :: "env \<Rightarrow> job_filter \<Rightarrow> job \<Rightarrow> job \<times> rat option" where
  "add_score e f j = (j, if f_text f = None then None else Some (score_of e f j))"

definition aggregate_search ::
  "env \<Rightarrow> job list \<Rightarrow> job_filter \<Rightarrow> sort_key list \<Rightarrow> int option \<Rightarrow> int option
   \<Rightarrow> store_error + (job \<times> rat option) list" where
  "aggregate_search e store f ks s l =
     (if fails e Aggregate \<or> \<not> filter_ok e f \<or> ks = [] then Inl StoreError
      else (case window_aggregate s l (matching_sorted e store f ks) of
              Inl err \<Rightarrow> Inl err
            | Inr js \<Rightarrow> Inr (map (add_score e f) js)))"

definition count_documents :: "env \<Rightarrow> job list \<Rightarrow> job_filter \<Rightarrow> store_error + nat" where
  "count_documents e store f =
     (if fails e CountDocuments \<or> \<not> filter_ok e f then Inl StoreError
      else Inr (length (filter (matches e f) store)))"

text \<open>
  \<open>updateMany({_id: {$in: ids}}, {$inc: {views: 1}})\<close>: the collection afterwards, and the
  error when the call failed. A call that succeeds has incremented every selected
  document; one that fails has incremented those it had reached.
\<close>

definition inc_views :: "nat list \<Rightarrow> job \<Rightarrow> job" where
  "inc_views ids j = (if job_id j \<in> set ids then j\<lparr>views := views j + 1\<rparr> else j)"

definition update_many_views ::
  "env \<Rightarrow> job list \<Rightarrow> nat list \<Rightarrow> job list \<times> store_error option" where
  "update_many_views e store ids =
     (if fails e UpdateMany
      then (map (\<lambda>j. if reached_before_failure e j then inc_views ids j else j) store,
            Some StoreError)
      else (map (inc_views ids) store, None))"

section \<open>The route handlers\<close>

text \<open>
  A handler takes the collection and the request and returns the collection after the
  request together with the response. Every handler is one \<open>try\<close> block: a call that
  throws ends it in the \<open>catch\<close>, which answers with status 500.
\<close>

datatype 'a response = Success 'a | Failure nat string

record pagination =
  page :: "int option"
  limit :: "int option"
  total :: nat
  totalPages :: jsnum
  hasNext :: bool
  hasPrev :: bool

record 'a page_body =
  data :: "'a list"
  pagination :: pagination

text \<open>A query parameter is absent or a string. An absent \<open>page\<close> or \<open>limit\<close> takes the
  numeric default of the destructuring; a string is read by \<open>parseInt\<close> where the handler
  calls it and by \<open>Number\<close> where the handler compares it with a number.\<close>

definition truthy :: "string option \<Rightarrow> string option" where
  "truthy p = (case p of None \<Rightarrow> None | Some s \<Rightarrow> if s = [] then None else Some s)"

definition int_param :: "int \<Rightarrow> string option \<Rightarrow> int option" where
  "int_param d p = (case p of None \<Rightarrow> Some d | Some s \<Rightarrow> parseInt s)"

definition num_param :: "int \<Rightarrow> string option \<Rightarrow> jsnum" where
  "num_param d p = (case p of None \<Rightarrow> Num (of_int d) | Some s \<Rightarrow> to_number s)"

text \<open>\<open>(parseInt(page) - 1) * parseInt(limit)\<close>.\<close>

definition skip_of :: "int option \<Rightarrow> int option \<Rightarrow> int option" where
  "skip_of p l = (case (p, l) of (Some a, Some b) \<Rightarrow> Some ((a - 1) * b) | _ \<Rightarrow> None)"

text \<open>\<open>Math.ceil(total / parseInt(limit))\<close>.\<close>

definition ceil_div :: "nat \<Rightarrow> int option \<Rightarrow> jsnum" where
  "ceil_div t l =
     (case l of None \<Rightarrow> NaN
      | Some d \<Rightarrow>
          if d = 0 then (if t = 0 then NaN else PInf)
          else Num (of_int \<lceil>(of_nat t :: rat) / of_int d\<rceil>))"

definition make_pagination ::
  "int \<Rightarrow> string option \<Rightarrow> int \<Rightarrow> string option \<Rightarrow> nat \<Rightarrow> pagination" where
  "make_pagination dp p dl l t =
     \<lparr> page = int_param dp p,
       limit = int_param dl l,
       total = t,
       totalPages = ceil_div t (int_param dl l),
       hasNext = js_lt (num_param dp p) (ceil_div t (int_param dl l)),
       hasPrev = js_lt (Num 1) (num_param dp p) \<rparr>"

subsection \<open>GET /api/jobs\<close>

record list_query =
  q_page :: "string option"
  q_limit :: "string option"
  q_sort :: "string option"
  q_order :: "string option"
  q_status :: "string option"
  q_jobType :: "string option"
  q_remote :: "string option"
  q_experienceLevel :: "string option"
  q_industry :: "string option"
  q_location :: "string option"
  q_minSalary :: "string option"
  q_maxSalary :: "string option"
  q_skills :: "string option"
  q_company :: "string option"

definition list_default_page :: int where
  "list_default_page = 1"

definition list_default_limit :: int where
  "list_default_limit = 20"

text \<open>The salary condition of both handlers: set when one of the two values is truthy,
  with a bound for each truthy one.\<close>

definition salary_filter :: "int option option \<Rightarrow> int option option \<Rightarrow> salary_cond option" where
  "salary_filter mn mx =
     (if mn \<noteq> None \<or> mx \<noteq> None then Some \<lparr> min_gte = mn, max_lte = mx \<rparr> else None)"

definition list_filter :: "list_query \<Rightarrow> job_filter" where
  "list_filter rq =
     \<lparr> f_text = None,
       f_status = (case q_status rq of None \<Rightarrow> ''active'' | Some s \<Rightarrow> s),
       f_jobType = truthy (q_jobType rq),
       f_remote = truthy (q_remote rq),
       f_experienceLevel = truthy (q_experienceLevel rq),
       f_industry = truthy (q_industry rq),
       f_location = truthy (q_location rq),
       f_company = truthy (q_company rq),
       f_salary = salary_filter (map_option parseInt (truthy (q_minSalary rq)))
                    (map_option parseInt (truthy (q_maxSalary rq))),
       f_skills = map_option (\<lambda>s. map trim (split_comma s)) (truthy (q_skills rq)),
       f_postedDate = None \<rparr>"

definition list_sort :: "list_query \<Rightarrow> sort_key list" where
  "list_sort rq =
     [ByField (case q_sort rq of None \<Rightarrow> ''postedDate'' | Some s \<Rightarrow> s)
        (if (case q_order rq of None \<Rightarrow> ''desc'' | Some s \<Rightarrow> s) = ''desc'' then - 1 else 1)]"

definition list_jobs ::
  "env \<Rightarrow> job list \<Rightarrow> list_query \<Rightarrow> job list \<times> job page_body response" where
  "list_jobs e store rq =
     (let f = list_filter rq;
          p = int_param list_default_page (q_page rq);
          l = int_param list_default_limit (q_limit rq)
      in case find_jobs e store f (list_sort rq) (skip_of p l) l of
           Inl err \<Rightarrow> (store, Failure 500 ''Failed to fetch jobs'')
         | Inr jobs \<Rightarrow>
             (case count_documents e store f of
                Inl err \<Rightarrow> (store, Failure 500 ''Failed to fetch jobs'')
              | Inr t \<Rightarrow>
                  (case update_many_views e store (map job_id jobs) of
                     (store', Some err) \<Rightarrow> (store', Failure 500 ''Failed to fetch jobs'')
                   | (store', None) \<Rightarrow>
                       (store',
                        Success \<lparr> data = jobs,
                                  pagination =
                                    make_pagination list_default_page (q_page rq)
                                      list_default_limit (q_limit rq) t \<rparr>))))"

subsection \<open>GET /api/search\<close>

text \<open>
  The \<open>filters\<close> parameter after \<open>JSON.parse\<close>: an object with the keys the handler reads,
  \<open>null\<close>, or text that does not parse. (A JSON number, string or array has none of the
  keys; it is the object with no key set.) A salary bound is any JSON value: the handler
  tests its truthiness and hands it to \<open>parseInt\<close>. The keys that are compared with string
  fields, and the two dates, carry strings, as a valid request has them; \<open>s_skills\<close> is set
  when the value is an array (of strings), which is the only value the handler uses.
\<close>

record search_filters =
  s_status :: "string option"
  s_jobType :: "string option"
  s_remote :: "string option"
  s_experienceLevel :: "string option"
  s_industry :: "string option"
  s_location :: "string option"
  s_company :: "string option"
  s_minSalary :: "json option"
  s_maxSalary :: "json option"
  s_skills :: "string list option"
  s_postedAfter :: "string option"
  s_postedBefore :: "string option"

datatype filters_arg = FiltersObject search_filters | FiltersNull | FiltersInvalid

record search_query =
  sq_q :: "string option"
  sq_page :: "string option"
  sq_limit :: "string option"
  sq_sort :: "string option"
  sq_filters :: "filters_arg option"

record search_info =
  si_query :: string
  si_filters :: search_filters
  si_sort :: string
  si_resultsCount :: nat

record 'a search_body = "'a page_body" +
  searchInfo :: search_info

definition search_default_page :: int where
  "search_default_page = 1"

definition search_default_limit :: int where
  "search_default_limit = 20"

definition no_filters :: search_filters where
  "no_filters =
     \<lparr> s_status = None, s_jobType = None, s_remote = None, s_experienceLevel = None,
       s_industry = None, s_location = None, s_company = None, s_minSalary = None,
       s_maxSalary = None, s_skills = None, s_postedAfter = None, s_postedBefore = None \<rparr>"

text \<open>A salary bound of the \<open>filters\<close> object: set when the value is truthy, to what
  \<open>parseInt\<close> reads in the value's text form. \<open>parseInt\<close> throws when the value has no
  text form.\<close>

definition salary_bound :: "env \<Rightarrow> json option \<Rightarrow> int option option" where
  "salary_bound e v =
     (case v of None \<Rightarrow> None
      | Some x \<Rightarrow> if json_truthy x then Some (parseInt (to_text (number_text e) x)) else None)"

definition bound_throws :: "json option \<Rightarrow> bool" where
  "bound_throws v = (case v of None \<Rightarrow> False | Some x \<Rightarrow> json_truthy x \<and> text_throws x)"

text \<open>\<open>q && q.trim()\<close>: the trimmed query when it is not empty.\<close>

definition search_text :: "string option \<Rightarrow> string option" where
  "search_text q =
     (case q of None \<Rightarrow> None | Some s \<Rightarrow> if s \<noteq> [] \<and> trim s \<noteq> [] then Some (trim s) else None)"

definition posted_filter :: "env \<Rightarrow> string option \<Rightarrow> string option \<Rightarrow> date_cond option" where
  "posted_filter e after before =
     (let c = (case truthy after of
                 None \<Rightarrow> None
               | Some a \<Rightarrow> Some \<lparr> date_gte = Some (date_parse e a), date_lte = None \<rparr>)
      in case truthy before of
           None \<Rightarrow> c
         | Some b \<Rightarrow>
             (case c of
                Some dc \<Rightarrow> Some (dc\<lparr> date_lte := Some (date_parse e b) \<rparr>)
              | None \<Rightarrow> Some \<lparr> date_gte = None, date_lte = Some (date_parse e b) \<rparr>))"

definition search_filter :: "env \<Rightarrow> string option \<Rightarrow> search_filters \<Rightarrow> job_filter" where
  "search_filter e q pf =
     \<lparr> f_text = search_text q,
       f_status = ''active'',
       f_jobType = truthy (s_jobType pf),
       f_remote = truthy (s_remote pf),
       f_experienceLevel = truthy (s_experienceLevel pf),
       f_industry = truthy (s_industry pf),
       f_location = truthy (s_location pf),
       f_company = truthy (s_company pf),
       f_salary = salary_filter (salary_bound e (s_minSalary pf))
                    (salary_bound e (s_maxSalary pf)),
       f_skills = s_skills pf,
       f_postedDate = posted_filter e (s_postedAfter pf) (s_postedBefore pf) \<rparr>"

definition search_sort :: "string option \<Rightarrow> string \<Rightarrow> sort_key list" where
  "search_sort q srt =
     (if srt = ''relevance'' then (if search_text q \<noteq> None then [ByTextScore] else [])
      else if srt = ''postedDate'' then [ByField ''postedDate'' (- 1)]
      else if srt = ''salary'' then [ByField ''salary.max'' (- 1)]
      else if srt = ''company'' then [ByField ''company'' 1]
      else if srt = ''location'' then [ByField ''location'' 1]
      else [ByField ''postedDate'' (- 1)])"

text \<open>\<open>JSON.parse(filters)\<close> inside its own \<open>try\<close>: text that does not parse leaves the
  empty object, and so does a missing parameter (the default is \<open>'{}'\<close>).\<close>

definition parsed_filters :: "search_query \<Rightarrow> search_filters" where
  "parsed_filters rq = (case sq_filters rq of Some (FiltersObject x) \<Rightarrow> x | _ \<Rightarrow> no_filters)"

definition sort_param :: "search_query \<Rightarrow> string" where
  "sort_param rq = (case sq_sort rq of None \<Rightarrow> ''relevance'' | Some s \<Rightarrow> s)"

definition request_filter :: "env \<Rightarrow> search_query \<Rightarrow> job_filter" where
  "request_filter e rq = search_filter e (sq_q rq) (parsed_filters rq)"

definition request_sort :: "search_query \<Rightarrow> sort_key list" where
  "request_sort rq = search_sort (sq_q rq) (sort_param rq)"

text \<open>
  Building the search filter (lines 29 to 72): reading a key of \<open>null\<close> throws a
  \<open>TypeError\<close>, and so does \<open>parseInt\<close> of a salary bound without text form; nothing
  else in these lines can throw.
\<close>

datatype js_error = TypeError

definition build_search_filter :: "env \<Rightarrow> search_query \<Rightarrow> js_error + job_filter" where
  "build_search_filter e rq =
     (if sq_filters rq = Some FiltersNull then Inl TypeError
      else if bound_throws (s_minSalary (parsed_filters rq))
              \<or> bound_throws (s_maxSalary (parsed_filters rq)) then Inl TypeError
      else Inr (request_filter e rq))"

definition search_jobs ::
  "env \<Rightarrow> job list \<Rightarrow> search_query \<Rightarrow> job list \<times> (job \<times> rat option) search_body response" where
  "search_jobs e store rq =
     (case build_search_filter e rq of
        Inl err \<Rightarrow> (store, Failure 500 ''Search failed'')
      | Inr f \<Rightarrow>
        (let p = int_param search_default_page (sq_page rq);
             l = int_param search_default_limit (sq_limit rq)
         in case aggregate_search e store f (request_sort rq) (skip_of p l) l of
              Inl err \<Rightarrow> (store, Failure 500 ''Search failed'')
            | Inr jobs \<Rightarrow>
                (case count_documents e store f of
                   Inl err \<Rightarrow> (store, Failure 500 ''Search failed'')
                 | Inr t \<Rightarrow>
                     (case update_many_views e store (map (job_id \<circ> fst) jobs) of
                        (store', Some err) \<Rightarrow> (store', Failure 500 ''Search failed'')
                      | (store', None) \<Rightarrow>
                          (store',
                           Success \<lparr> data = jobs,
                                     pagination =
                                       make_pagination search_default_page (sq_page rq)
                                         search_default_limit (sq_limit rq) t,
                                     searchInfo =
                                       \<lparr> si_query = (case sq_q rq of None \<Rightarrow> [] | Some s \<Rightarrow> s),
                                         si_filters = parsed_filters rq,
                                         si_sort = sort_param rq,
                                         si_resultsCount = length jobs \<rparr> \<rparr>)))))"

subsection \<open>POST /api/jobs and PUT /api/jobs/:id\<close>

text \<open>
  The body of a creation request as \<open>validateJob\<close> hands it on: the required fields are
  present and \<open>remote\<close>, \<open>status\<close> and \<open>postedDate\<close> carry their defaults. \<open>new Job(body)\<close>
  adds the schema's own defaults (\<open>views\<close> and \<open>applications\<close> 0) and the \<open>pre('save')\<close>
  hook sets a missing \<open>expiryDate\<close> to \<open>new Date(postedDate.getTime() + 30 days)\<close>; a
  \<open>Date\<close> object is never falsy, so every supplied \<open>expiryDate\<close> is kept. When the sum
  lies beyond the range of \<open>Date\<close> the new date is invalid; Mongoose does not set an
  invalid date, and the document is saved without \<open>expiryDate\<close>. The identifier is the
  store's choice. Dates are their time values in milliseconds.
\<close>

record job_body =
  b_title :: string
  b_company :: string
  b_location :: string
  b_description :: string
  b_salary_min :: "rat option"
  b_salary_max :: "rat option"
  b_jobType :: string
  b_experienceLevel :: "string option"
  b_remote :: string
  b_industry :: "string option"
  b_skills :: "string list"
  b_status :: string
  b_postedDate :: int
  b_expiryDate :: "int option"

definition new_job :: "nat \<Rightarrow> job_body \<Rightarrow> job" where
  "new_job i b =
     \<lparr> job_id = i, title = b_title b, company = b_company b, location = b_location b,
       description = b_description b, salary_min = b_salary_min b,
       salary_max = b_salary_max b, jobType = b_jobType b,
       experienceLevel = b_experienceLevel b, remote = b_remote b, industry = b_industry b,
       skills = b_skills b, status = b_status b, postedDate = b_postedDate b,
       expiryDate = b_expiryDate b, views = 0, applications = 0 \<rparr>"

definition thirty_days :: int where
  "thirty_days = 30 * 24 * 60 * 60 * 1000"

definition pre_save :: "job \<Rightarrow> job" where
  "pre_save j =
     (case expiryDate j of
        None \<Rightarrow> j\<lparr> expiryDate := new_date (postedDate j + thirty_days) \<rparr>
      | Some d \<Rightarrow> j)"

definition create_job :: "env \<Rightarrow> job list \<Rightarrow> nat \<Rightarrow> job_body \<Rightarrow> job list \<times> job response" where
  "create_job e store i b =
     (let j = pre_save (new_job i b)
      in if fails e Save then (store, Failure 500 ''Failed to create job'')
         else (store @ [j], Success j))"

text \<open>
  The body of an update as \<open>validateJobUpdate\<close> hands it on: every field is optional and
  \<open>findByIdAndUpdate\<close> sets the fields that are present; a \<open>salary\<close> object replaces the
  stored one. No \<open>save\<close> hook runs on this path.
\<close>

record job_update =
  u_title :: "string option"
  u_company :: "string option"
  u_location :: "string option"
  u_description :: "string option"
  u_salary :: "(rat option \<times> rat option) option"
  u_jobType :: "string option"
  u_experienceLevel :: "string option"
  u_remote :: "string option"
  u_industry :: "string option"
  u_skills :: "string list option"
  u_status :: "string option"
  u_postedDate :: "int option"
  u_expiryDate :: "int option"

definition or_old :: "'a option \<Rightarrow> 'a \<Rightarrow> 'a" where
  "or_old n old = (case n of None \<Rightarrow> old | Some v \<Rightarrow> v)"

definition or_old_opt :: "'a option \<Rightarrow> 'a option \<Rightarrow> 'a option" where
  "or_old_opt n old = (case n of None \<Rightarrow> old | Some v \<Rightarrow> Some v)"

definition apply_update :: "job_update \<Rightarrow> job \<Rightarrow> job" where
  "apply_update u j =
     \<lparr> job_id = job_id j,
       title = or_old (u_title u) (title j),
       company = or_old (u_company u) (company j),
       location = or_old (u_location u) (location j),
       description = or_old (u_description u) (description j),
       salary_min = (case u_salary u of None \<Rightarrow> salary_min j | Some (mn, mx) \<Rightarrow> mn),
       salary_max = (case u_salary u of None \<Rightarrow> salary_max j | Some (mn, mx) \<Rightarrow> mx),
       jobType = or_old (u_jobType u) (jobType j),
       experienceLevel = or_old_opt (u_experienceLevel u) (experienceLevel j),
       remote = or_old (u_remote u) (remote j),
       industry = or_old_opt (u_industry u) (industry j),
       skills = or_old (u_skills u) (skills j),
       status = or_old (u_status u) (status j),
       postedDate = or_old (u_postedDate u) (postedDate j),
       expiryDate = or_old_opt (u_expiryDate u) (expiryDate j),
       views = views j,
       applications = applications j \<rparr>"

fun update_first :: "nat \<Rightarrow> (job \<Rightarrow> job) \<Rightarrow> job list \<Rightarrow> job list" where
  "update_first i g [] = []"
| "update_first i g (j # js) = (if job_id j = i then g j # js else j # update_first i g js)"

definition update_job :: "env \<Rightarrow> job list \<Rightarrow> nat \<Rightarrow> job_update \<Rightarrow> job list \<times> job response" where
  "update_job e store i u =
     (if fails e FindByIdAndUpdate then (store, Failure 500 ''Failed to update job'')
      else (case find (\<lambda>j. job_id j = i) store of
              None \<Rightarrow> (store, Failure 404 ''Job not found'')
            | Some j \<Rightarrow> (update_first i (apply_update u) store, Success (apply_update u j))))"

subsection \<open>GET /api/search/suggestions\<close>

record suggest_query =
  g_q :: "string option"
  g_type :: "string option"

datatype suggestion = Plain string | Tagged string string

text \<open>
  \<open>Job.distinct(field, {field: {$regex: query, $options: 'i'}, status: 'active'})\<close> builds
  a query for the distinct values of the field in the active documents where the field
  (one of its elements, for \<open>skills\<close>) matches; the store is asked when the query is
  awaited.
\<close>

definition distinct_values ::
  "env \<Rightarrow> job list \<Rightarrow> (job \<Rightarrow> string list) \<Rightarrow> string \<Rightarrow> store_error + string list" where
  "distinct_values e store field query =
     (if fails e Distinct \<or> \<not> pattern_ok e query then Inl StoreError
      else Inr (remdups (concat (map field
                  (filter (\<lambda>j. status j = ''active'' \<and> list_ex (regex_test e query) (field j))
                     store)))))"

text \<open>
  \<open>Query.limit(n)\<close> sets the limit of a query. Mongoose allows no limit on a distinct
  query: there the call of \<open>limit\<close> throws (\<open>limit cannot be used with distinct\<close>), before
  the query is awaited.
\<close>

datatype query_op = FindQuery | DistinctQuery

definition query_limit :: "query_op \<Rightarrow> nat \<Rightarrow> store_error + nat" where
  "query_limit k n = (case k of FindQuery \<Rightarrow> Inr n | DistinctQuery \<Rightarrow> Inl StoreError)"

text \<open>\<open>await Job.distinct(field, cond).limit(n)\<close>.\<close>

definition distinct_limit ::
  "env \<Rightarrow> job list \<Rightarrow> (job \<Rightarrow> string list) \<Rightarrow> string \<Rightarrow> nat \<Rightarrow> store_error + string list" where
  "distinct_limit e store field query n =
     (case query_limit DistinctQuery n of
        Inl err \<Rightarrow> Inl err
      | Inr k \<Rightarrow>
          (case distinct_values e store field query of
             Inl err \<Rightarrow> Inl err
           | Inr vs \<Rightarrow> Inr (take k vs)))"

definition one_family ::
  "env \<Rightarrow> job list \<Rightarrow> (job \<Rightarrow> string list) \<Rightarrow> string \<Rightarrow> suggestion list response" where
  "one_family e store field query =
     (case distinct_limit e store field query 10 of
        Inl err \<Rightarrow> Failure 500 ''Failed to get suggestions''
      | Inr vs \<Rightarrow> Success (map Plain vs))"

definition all_families :: "env \<Rightarrow> job list \<Rightarrow> string \<Rightarrow> suggestion list response" where
  "all_families e store query =
     (case (distinct_limit e store (\<lambda>j. [title j]) query 5,
            distinct_limit e store (\<lambda>j. [company j]) query 5,
            distinct_limit e store (\<lambda>j. [location j]) query 5,
            distinct_limit e store skills query 5) of
        (Inr jobTitles, Inr companies, Inr locations, Inr sks) \<Rightarrow>
          Success (map (Tagged ''job'') jobTitles @ map (Tagged ''company'') companies
                   @ map (Tagged ''location'') locations @ map (Tagged ''skill'') sks)
      | _ \<Rightarrow> Failure 500 ''Failed to get suggestions'')"

definition suggestions :: "env \<Rightarrow> job list \<Rightarrow> suggest_query \<Rightarrow> suggestion list response" where
  "suggestions e store rq =
     (case g_q rq of
        None \<Rightarrow> Success []
      | Some q \<Rightarrow>
          if q = [] \<or> length (trim q) < 2 then Success []
          else
            (let query = trim q;
                 ty = (case g_type rq of None \<Rightarrow> ''all'' | Some t \<Rightarrow> t)
             in if ty = ''jobs'' then one_family e store (\<lambda>j. [title j]) query
                else if ty = ''companies'' then one_family e store (\<lambda>j. [company j]) query
                else if ty = ''locations'' then one_family e store (\<lambda>j. [location j]) query
                else if ty = ''skills'' then one_family e store skills query
                else all_families e store query))"

subsection \<open>GET /api/jobs/stats/overview\<close>

record overview_stats =
  totalJobs :: nat
  activeJobs :: nat
  totalViews :: nat
  totalApplications :: nat

record stats_body =
  overview :: overview_stats
  jobTypes :: "(string \<times> nat) list"
  remoteOptions :: "(string \<times> nat) list"
  topIndustries :: "(string \<times> nat) list"

text \<open>\<open>$group\<close> with \<open>_id: null\<close> yields one document for a collection that has
  documents and none for an empty one.\<close>

definition group_overview :: "job list \<Rightarrow> overview_stats list" where
  "group_overview store =
     (if store = [] then []
      else [\<lparr> totalJobs = length store,
              activeJobs = length (filter (\<lambda>j. status j = ''active'') store),
              totalViews = sum_list (map views store),
              totalApplications = sum_list (map applications store) \<rparr>])"

text \<open>\<open>$group\<close> by a field with a count, then \<open>$sort\<close> by the count, descending.\<close>

definition group_count :: "string list \<Rightarrow> (string \<times> nat) list" where
  "group_count xs = map (\<lambda>k. (k, count_list xs k)) (remdups xs)"

definition by_count_desc :: "(string \<times> nat) list \<Rightarrow> (string \<times> nat) list" where
  "by_count_desc gs = sort_by (\<lambda>a b. snd b < snd a) gs"

definition industries_set :: "job list \<Rightarrow> string list" where
  "industries_set store =
     concat (map (\<lambda>j. case industry j of None \<Rightarrow> [] | Some s \<Rightarrow> if s = [] then [] else [s]) store)"

definition stats_overview :: "env \<Rightarrow> job list \<Rightarrow> stats_body response" where
  "stats_overview e store =
     (if fails e Aggregate then Failure 500 ''Failed to fetch job statistics''
      else Success
        \<lparr> overview =
            (case group_overview store of
               [] \<Rightarrow> \<lparr> totalJobs = 0, activeJobs = 0, totalViews = 0, totalApplications = 0 \<rparr>
             | x # _ \<Rightarrow> x),
          jobTypes = by_count_desc (group_count (map jobType store)),
          remoteOptions = by_count_desc (group_count (map remote store)),
          topIndustries = take 10 (by_count_desc (group_count (industries_set store))) \<rparr>)"

section \<open>Example data\<close>

text \<open>
  A small collection and a store for the concrete instances below. The example engine
  knows one pattern with regular-expression syntax, the single dot, which matches every
  non-empty string; it scores a document 1 when its title contains the query; it orders
  documents by \<open>postedDate\<close>; it reads two ISO dates and writes two numbers; and it reads
  a nested salary condition as a literal document, as MongoDB does.
\<close>

definition job_a :: job where
  "job_a =
     \<lparr> job_id = 1, title = ''Senior Engineer'', company = ''Acme'', location = ''Berlin'',
       description = ''Build things'', salary_min = Some 90000, salary_max = Some 120000,
       jobType = ''full-time'', experienceLevel = Some ''senior'', remote = ''remote'',
       industry = Some ''Tech'', skills = [''python'', ''sql''], status = ''active'',
       postedDate = 86400000, expiryDate = Some 2678400000, views = 3, applications = 0 \<rparr>"

definition job_b :: job where
  "job_b =
     \<lparr> job_id = 2, title = ''Engineer'', company = ''Bolt'', location = ''Paris'',
       description = ''Run things'', salary_min = Some 50000, salary_max = Some 70000,
       jobType = ''contract'', experienceLevel = None, remote = ''on-site'',
       industry = None, skills = [''java''], status = ''active'',
       postedDate = 172800000, expiryDate = Some 2764800000, views = 0, applications = 0 \<rparr>"

definition job_c :: job where
  "job_c =
     \<lparr> job_id = 3, title = ''Intern'', company = ''Acme'', location = ''Berlin'',
       description = ''Learn things'', salary_min = None, salary_max = None,
       jobType = ''internship'', experienceLevel = Some ''entry'', remote = ''hybrid'',
       industry = Some ''Tech'', skills = [], status = ''draft'',
       postedDate = 259200000, expiryDate = None, views = 0, applications = 0 \<rparr>"

definition demo_store :: "job list" where
  "demo_store = [job_a, job_b, job_c]"

definition demo_env :: env where
  "demo_env =
     \<lparr> regex_ok = (\<lambda>p. p = ''.''),
       regex_i = (\<lambda>p s. p = ''.'' \<and> s \<noteq> []),
       text_score = (\<lambda>q j. if ci_contains q (title j) then Some 1 else None),
       field_le = (\<lambda>p a b. if p = ''postedDate'' then postedDate a \<le> postedDate b else True),
       date_parse = (\<lambda>s. if s = ''1970-01-02'' then Some 86400000
                          else if s = ''1970-01-03'' then Some 172800000 else None),
       number_text = (\<lambda>x. if x = 60000 then ''60000''
                           else if x = 1000000000000000000000 then ''1e+21'' else ''0''),
       salary_by_path = False,
       fails = (\<lambda>c. False),
       reached_before_failure = (\<lambda>j. False) \<rparr>"

definition no_query :: list_query where
  "no_query =
     \<lparr> q_page = None, q_limit = None, q_sort = None, q_order = None, q_status = None,
       q_jobType = None, q_remote = None, q_experienceLevel = None, q_industry = None,
       q_location = None, q_minSalary = None, q_maxSalary = None, q_skills = None,
       q_company = None \<rparr>"

definition no_search :: search_query where
  "no_search =
     \<lparr> sq_q = None, sq_page = None, sq_limit = None, sq_sort = None, sq_filters = None \<rparr>"

definition demo_page2 :: list_query where
  "demo_page2 = no_query\<lparr> q_page := Some ''2'', q_limit := Some ''1'' \<rparr>"

definition demo_text_search :: search_query where
  "demo_text_search =
     no_search\<lparr> sq_q := Some ''engineer'', sq_page := Some ''2'', sq_limit := Some ''1'' \<rparr>"

definition active_only :: job_filter where
  "active_only =
     \<lparr> f_text = None, f_status = ''active'', f_jobType = None, f_remote = None,
       f_experienceLevel = None, f_industry = None, f_location = None, f_company = None,
       f_salary = None, f_skills = None, f_postedDate = None \<rparr>"

definition engineer_filter :: job_filter where
  "engineer_filter = active_only\<lparr> f_text := Some ''engineer'' \<rparr>"

definition demo_filtered :: list_query where
  "demo_filtered =
     no_query\<lparr> q_jobType := Some ''full-time'', q_industry := Some ''tec'',
               q_skills := Some ''go, sql'' \<rparr>"

definition demo_filtered_search :: search_query where
  "demo_filtered_search =
     no_search\<lparr> sq_sort := Some ''postedDate'',
                sq_filters := Some (FiltersObject
                  (no_filters\<lparr> s_status := Some ''draft'', s_skills := Some [''sql''],
                               s_postedAfter := Some ''1970-01-02'' \<rparr>)) \<rparr>"






definition demo_text_all :: search_query where
  "demo_text_all = no_search\<lparr> sq_q := Some ''engineer'' \<rparr>"

text \<open>The example store when every \<open>updateMany\<close> fails.\<close>

definition demo_env_no_update :: env where
  "demo_env_no_update = demo_env\<lparr> fails := (\<lambda>c. c = UpdateMany) \<rparr>"

definition full_time_filter :: job_filter where
  "full_time_filter =
     active_only\<lparr> f_jobType := Some ''full-time'', f_industry := Some ''tec'',
                  f_skills := Some [''go'', ''sql''] \<rparr>"

definition since_filter :: job_filter where
  "since_filter =
     active_only\<lparr> f_skills := Some [''sql''],
                  f_postedDate := Some \<lparr> date_gte = Some (Some 86400000), date_lte = None \<rparr> \<rparr>"




definition demo_body :: job_body where
  "demo_body =
     \<lparr> b_title = ''Analyst'', b_company = ''Core'', b_location = ''Rome'',
       b_description = ''Count things'', b_salary_min = None, b_salary_max = None,
       b_jobType = ''part-time'', b_experienceLevel = None, b_remote = ''on-site'',
       b_industry = None, b_skills = [], b_status = ''active'', b_postedDate = 345600000,
       b_expiryDate = None \<rparr>"

definition demo_update :: job_update where
  "demo_update =
     \<lparr> u_title = Some ''Staff Engineer'', u_company = None, u_location = None,
       u_description = None, u_salary = None, u_jobType = None, u_experienceLevel = None,
       u_remote = None, u_industry = None, u_skills = None, u_status = None,
       u_postedDate = Some 432000000, u_expiryDate = None \<rparr>"

definition demo_suggest :: suggest_query where
  "demo_suggest = \<lparr> g_q = Some '' eng '', g_type = Some ''jobs'' \<rparr>"

definition demo_suggest_all :: suggest_query where
  "demo_suggest_all = \<lparr> g_q = Some ''acme'', g_type = None \<rparr>"

text \<open>A creation request posted at the last instant of the range of \<open>Date\<close>.\<close>

definition late_body :: job_body where
  "late_body = demo_body\<lparr> b_postedDate := 8640000000000000 \<rparr>"

definition demo_suggest_short :: suggest_query where
  "demo_suggest_short = \<lparr> g_q = Some '' a '', g_type = None \<rparr>"

section \<open>Properties of requests, stated on their parameters\<close>

text \<open>A \<open>page\<close> or \<open>limit\<close> parameter (or its default) denotes the integer \<open>n\<close>: \<open>parseInt\<close>
  and \<open>Number\<close> both read it as \<open>n\<close>.\<close>

definition reads_as :: "int \<Rightarrow> string option \<Rightarrow> int \<Rightarrow> bool" where
  "reads_as d p n = (int_param d p = Some n \<and> num_param d p = Num (of_int n))"

text \<open>The page of size \<open>l\<close> number \<open>p\<close> of a list, and the envelope that goes with it for
  \<open>t\<close> matching documents.\<close>

definition page_of :: "int \<Rightarrow> int \<Rightarrow> 'a list \<Rightarrow> 'a list" where
  "page_of p l xs = take (nat l) (drop (nat ((p - 1) * l)) xs)"

definition envelope :: "int \<Rightarrow> int \<Rightarrow> nat \<Rightarrow> pagination" where
  "envelope p l t =
     \<lparr> page = Some p, limit = Some l, total = t,
       totalPages = Num (of_int \<lceil>(of_nat t :: rat) / of_int l\<rceil>),
       hasNext = (p < \<lceil>(of_nat t :: rat) / of_int l\<rceil>),
       hasPrev = (1 < p) \<rparr>"











section \<open>Sorting and the windows of a result\<close>

lemma set_insert_sorted: "set (insert_sorted lt x ys) = insert x (set ys)"
  by (induction ys) auto

lemma set_sort_by: "set (sort_by lt xs) = set xs"
  by (induction xs) (auto simp: sort_by_def set_insert_sorted)

lemma set_matching_sorted: "set (matching_sorted e store f ks) = {j \<in> set store. matches e f j}"
  by (auto simp: matching_sorted_def set_sort_by)

lemma window_find_subset: "window_find s l xs = Inr ys \<Longrightarrow> set ys \<subseteq> set xs"
  by (auto simp: window_find_def split: option.splits if_splits dest: in_set_takeD in_set_dropD)

lemma window_aggregate_subset: "window_aggregate s l xs = Inr ys \<Longrightarrow> set ys \<subseteq> set xs"
  by (auto simp: window_aggregate_def split: option.splits if_splits dest: in_set_takeD in_set_dropD)

lemma find_jobs_matches:
  "find_jobs e store f ks s l = Inr jobs \<Longrightarrow> j \<in> set jobs \<Longrightarrow> j \<in> set store \<and> matches e f j"
  using window_find_subset[of s l "matching_sorted e store f ks" jobs]
  by (auto simp: find_jobs_def set_matching_sorted split: if_splits)

lemma aggregate_search_matches:
  assumes "aggregate_search e store f ks s l = Inr jobs" and "x \<in> set jobs"
  shows "fst x \<in> set store \<and> matches e f (fst x) \<and> x = add_score e f (fst x)"
proof -
  from assms(1) obtain js where
    w: "window_aggregate s l (matching_sorted e store f ks) = Inr js"
    and jobs: "jobs = map (add_score e f) js"
    by (auto simp: aggregate_search_def split: if_splits sum.splits)
  from assms(2) jobs obtain j where j: "j \<in> set js" and x: "x = add_score e f j"
    by auto
  from window_aggregate_subset[OF w] j have "j \<in> set (matching_sorted e store f ks)"
    by auto
  then have "j \<in> set store \<and> matches e f j"
    by (simp add: set_matching_sorted)
  with x show ?thesis
    by (simp add: add_score_def)
qed

text \<open>What a successful response of each handler tells about the three store calls.\<close>

lemma list_jobs_SuccessD:
  assumes "list_jobs e store rq = (store', Success body)"
  shows "find_jobs e store (list_filter rq) (list_sort rq)
           (skip_of (int_param list_default_page (q_page rq)) (int_param list_default_limit (q_limit rq)))
           (int_param list_default_limit (q_limit rq)) = Inr (data body)"
    and "count_documents e store (list_filter rq) = Inr (total (pagination body))"
    and "update_many_views e store (map job_id (data body)) = (store', None)"
    and "pagination body = make_pagination list_default_page (q_page rq) list_default_limit (q_limit rq) (total (pagination body))"
  using assms
  by (auto simp: list_jobs_def Let_def make_pagination_def
        split: sum.splits prod.splits option.splits)

lemma search_jobs_SuccessD:
  assumes "search_jobs e store rq = (store', Success body)"
  shows "aggregate_search e store (request_filter e rq) (request_sort rq)
           (skip_of (int_param search_default_page (sq_page rq)) (int_param search_default_limit (sq_limit rq)))
           (int_param search_default_limit (sq_limit rq)) = Inr (data body)"
    and "count_documents e store (request_filter e rq) = Inr (total (pagination body))"
    and "update_many_views e store (map (job_id \<circ> fst) (data body)) = (store', None)"
    and "pagination body = make_pagination search_default_page (sq_page rq) search_default_limit (sq_limit rq) (total (pagination body))"
  using assms
  by (auto simp: search_jobs_def build_search_filter_def Let_def make_pagination_def
        split: sum.splits prod.splits option.splits if_splits)

lemma make_pagination_envelope:
  assumes "reads_as dp pp p" and "reads_as dl lp l" and "0 < l"
  shows "make_pagination dp pp dl lp t = envelope p l t"
proof -
  have c: "ceil_div t (Some l) = Num (of_int \<lceil>(of_nat t :: rat) / of_int l\<rceil>)"
    using assms(3) by (simp add: ceil_div_def)
  have lt: "js_lt (Num (of_int p)) (Num (of_int \<lceil>(of_nat t :: rat) / of_int l\<rceil>))
              = (p < \<lceil>(of_nat t :: rat) / of_int l\<rceil>)"
    by simp
  have gt: "js_lt (Num 1) (Num (of_int p)) = (1 < p)"
    by simp
  show ?thesis
    using assms(1,2) c lt gt
    by (simp add: make_pagination_def envelope_def reads_as_def)
qed

lemma skip_nonneg: "0 < p \<Longrightarrow> 0 < l \<Longrightarrow> \<not> (p - 1) * l < (0::int)"
proof -
  assume "0 < p" and "0 < l"
  then have "0 \<le> p - 1" and "0 \<le> l" by simp_all
  then have "0 \<le> (p - 1) * l" by (rule mult_nonneg_nonneg)
  then show ?thesis by simp
qed

lemma map_fst_add_score: "map fst (map (add_score e f) js) = js"
  by (induction js) (simp_all add: add_score_def)

lemma window_find_page:
  assumes "0 < p" and "0 < l"
  shows "window_find (skip_of (Some p) (Some l)) (Some l) xs = Inr (page_of p l xs)"
  using assms skip_nonneg[OF assms] by (simp add: window_find_def skip_of_def page_of_def)

lemma window_aggregate_page:
  assumes "0 < p" and "0 < l"
  shows "window_aggregate (skip_of (Some p) (Some l)) (Some l) xs = Inr (page_of p l xs)"
  using assms skip_nonneg[OF assms] by (simp add: window_aggregate_def skip_of_def page_of_def)

text \<open>When the store takes the three calls, the handlers answer with the page.\<close>

lemma list_jobs_accepted:
  assumes "\<not> fails e Find" and "\<not> fails e CountDocuments" and "\<not> fails e UpdateMany"
    and "filter_ok e (list_filter rq)"
    and "int_param list_default_page (q_page rq) = Some p"
    and "int_param list_default_limit (q_limit rq) = Some l"
    and "0 < p" and "0 < l"
  shows "list_jobs e store rq =
     (map (inc_views (map job_id (page_of p l (matching_sorted e store (list_filter rq) (list_sort rq))))) store,
      Success \<lparr> data = page_of p l (matching_sorted e store (list_filter rq) (list_sort rq)),
                pagination = make_pagination list_default_page (q_page rq) list_default_limit (q_limit rq)
                   (length (filter (matches e (list_filter rq)) store)) \<rparr>)"
  using assms(1-6)
  by (simp add: list_jobs_def Let_def find_jobs_def count_documents_def update_many_views_def
        window_find_page[OF assms(7,8)])

lemma search_jobs_accepted:
  assumes "\<not> fails e Aggregate" and "\<not> fails e CountDocuments" and "\<not> fails e UpdateMany"
    and "filter_ok e (request_filter e rq)" and "request_sort rq \<noteq> []"
    and "build_search_filter e rq = Inr (request_filter e rq)"
    and "int_param search_default_page (sq_page rq) = Some p"
    and "int_param search_default_limit (sq_limit rq) = Some l"
    and "0 < p" and "0 < l"
  shows "search_jobs e store rq =
     (map (inc_views (map job_id (page_of p l (matching_sorted e store (request_filter e rq) (request_sort rq))))) store,
      Success \<lparr> data = map (add_score e (request_filter e rq))
                         (page_of p l (matching_sorted e store (request_filter e rq) (request_sort rq))),
                pagination = make_pagination search_default_page (sq_page rq) search_default_limit (sq_limit rq)
                   (length (filter (matches e (request_filter e rq)) store)),
                searchInfo = \<lparr> si_query = (case sq_q rq of None \<Rightarrow> [] | Some s \<Rightarrow> s),
                               si_filters = parsed_filters rq, si_sort = sort_param rq,
                               si_resultsCount = length (page_of p l (matching_sorted e store (request_filter e rq) (request_sort rq))) \<rparr> \<rparr>)"
  using assms(1-8)
  by (simp add: search_jobs_def Let_def aggregate_search_def
        count_documents_def update_many_views_def window_aggregate_page[OF assms(9,10)]
        comp_def add_score_def)

lemma build_search_filter_plain:
  assumes "sq_filters rq \<noteq> Some FiltersNull"
    and "\<not> bound_throws (s_minSalary (parsed_filters rq))"
    and "\<not> bound_throws (s_maxSalary (parsed_filters rq))"
  shows "build_search_filter e rq = Inr (request_filter e rq)"
  using assms by (simp add: build_search_filter_def)

lemma build_search_filter_none:
  "sq_filters rq = None \<Longrightarrow> build_search_filter e rq = Inr (request_filter e rq)"
  by (simp add: build_search_filter_def parsed_filters_def no_filters_def bound_throws_def)







section \<open>The example requests, evaluated\<close>

lemmas js_defs = is_js_space_def trim_def digit_val_def is_digit_in_def digits_value_def
  all_digits_def parseInt_def exponent_of_def scale10_def decimal_value_def to_number_def

lemmas match_defs = ci_key_def plain_char_def plain_text_def regex_test_def pattern_ok_def
  opt_is_def opt_regex_def num_gte_def num_lte_def salary_matches_def date_matches_def
  skills_match_def text_matches_def matches_def opt_pattern_ok_def dates_valid_def filter_ok_def

lemma demo_fails [simp]: "fails demo_env c = False"
  by (simp add: demo_env_def)

lemma reads_2: "reads_as d (Some ''2'') 2"
  by (simp add: reads_as_def int_param_def num_param_def js_defs)

lemma reads_1: "reads_as d (Some ''1'') 1"
  by (simp add: reads_as_def int_param_def num_param_def js_defs)

lemma reads_default: "reads_as d None d"
  by (simp add: reads_as_def int_param_def num_param_def)

lemma pagination_default: "make_pagination d None d' None t = envelope d d' t" if "0 < d'"
  by (rule make_pagination_envelope[OF reads_default reads_default that])

lemma active_only_ok: "filter_ok e active_only"
  by (simp add: match_defs active_only_def)

lemma active_only_matches: "filter (matches demo_env active_only) demo_store = [job_a, job_b]"
  by (simp add: match_defs active_only_def demo_store_def job_a_def job_b_def job_c_def)

lemma demo_by_date: "matching_sorted demo_env demo_store active_only [ByField ''postedDate'' (- 1)] = [job_b, job_a]"
  unfolding matching_sorted_def active_only_matches
  by (simp add: sort_by_def demo_env_def job_a_def job_b_def)

lemma active_only_count: "length (filter (matches demo_env active_only) demo_store) = 2"
  unfolding active_only_matches by simp

lemma no_query_params: "q_page no_query = None" "q_limit no_query = None"
  by (simp_all add: no_query_def)

lemma no_query_filter: "list_filter no_query = active_only"
  by (simp add: list_filter_def no_query_def truthy_def salary_filter_def active_only_def)

lemma no_query_sort: "list_sort no_query = [ByField ''postedDate'' (- 1)]"
  by (simp add: list_sort_def no_query_def)

lemma no_query_eval:
  "list_jobs demo_env demo_store no_query =
     (map (inc_views [2, 1]) demo_store,
      Success \<lparr> data = [job_b, job_a], pagination = envelope 1 20 2 \<rparr>)"
proof -
  have p: "int_param list_default_page (q_page no_query) = Some 1"
    and l: "int_param list_default_limit (q_limit no_query) = Some 20"
    unfolding no_query_params
    by (simp_all add: int_param_def list_default_page_def list_default_limit_def)
  have ok: "filter_ok demo_env (list_filter no_query)"
    unfolding no_query_filter by (rule active_only_ok)
  have pg: "page_of 1 20 [job_b, job_a] = [job_b, job_a]"
    by (simp add: page_of_def)
  have k: "make_pagination list_default_page (q_page no_query) list_default_limit
             (q_limit no_query) 2 = envelope 1 20 2"
    unfolding no_query_params list_default_page_def list_default_limit_def
    by (rule pagination_default) simp
  have id: "job_id job_a = 1" "job_id job_b = 2"
    by (simp_all add: job_a_def job_b_def)
  from list_jobs_accepted[OF _ _ _ ok p l, of demo_store]
  show ?thesis
    unfolding no_query_filter no_query_sort demo_by_date active_only_count pg k
    by (simp add: id)
qed

lemma demo_page2_params: "q_page demo_page2 = Some ''2''" "q_limit demo_page2 = Some ''1''"
  by (simp_all add: demo_page2_def no_query_def)

lemma demo_page2_filter: "list_filter demo_page2 = active_only"
  by (simp add: list_filter_def demo_page2_def no_query_def truthy_def salary_filter_def active_only_def)

lemma demo_page2_sort: "list_sort demo_page2 = [ByField ''postedDate'' (- 1)]"
  by (simp add: list_sort_def demo_page2_def no_query_def)

lemma demo_page2_eval:
  "list_jobs demo_env demo_store demo_page2 =
     (map (inc_views [1]) demo_store,
      Success \<lparr> data = [job_a], pagination = envelope 2 1 2 \<rparr>)"
proof -
  have p: "reads_as list_default_page (q_page demo_page2) 2"
    and l: "reads_as list_default_limit (q_limit demo_page2) 1"
    unfolding demo_page2_params by (rule reads_2, rule reads_1)
  have ok: "filter_ok demo_env (list_filter demo_page2)"
    unfolding demo_page2_filter by (rule active_only_ok)
  have pg: "page_of 2 1 [job_b, job_a] = [job_a]"
    by (simp add: page_of_def)
  have k: "make_pagination list_default_page (q_page demo_page2) list_default_limit
             (q_limit demo_page2) 2 = envelope 2 1 2"
    by (rule make_pagination_envelope[OF p l]) simp
  have id: "job_id job_a = 1"
    by (simp add: job_a_def)
  from p l have "int_param list_default_page (q_page demo_page2) = Some 2"
    and "int_param list_default_limit (q_limit demo_page2) = Some 1"
    by (simp_all add: reads_as_def)
  from list_jobs_accepted[OF _ _ _ ok this, of demo_store]
  show ?thesis
    unfolding demo_page2_filter demo_page2_sort demo_by_date active_only_count pg k
    by (simp add: id)
qed

lemma demo_filtered_params: "q_page demo_filtered = None" "q_limit demo_filtered = None"
  "q_status demo_filtered = None"
  by (simp_all add: demo_filtered_def no_query_def)

lemma demo_filtered_filter: "list_filter demo_filtered = full_time_filter"
  unfolding list_filter_def
  by (simp add: demo_filtered_def no_query_def truthy_def salary_filter_def trim_def is_js_space_def full_time_filter_def active_only_def)

lemma demo_filtered_sort: "list_sort demo_filtered = [ByField ''postedDate'' (- 1)]"
  by (simp add: list_sort_def demo_filtered_def no_query_def)

lemma full_time_ok: "filter_ok e full_time_filter"
  by (simp add: match_defs full_time_filter_def active_only_def)

lemma full_time_matches: "filter (matches demo_env full_time_filter) demo_store = [job_a]"
  by (simp add: match_defs full_time_filter_def active_only_def demo_store_def demo_env_def
        job_a_def job_b_def job_c_def)

lemma full_time_sorted: "matching_sorted demo_env demo_store full_time_filter ks = [job_a]"
  unfolding matching_sorted_def full_time_matches by (simp add: sort_by_def)

lemma demo_filtered_eval:
  "list_jobs demo_env demo_store demo_filtered =
     (map (inc_views [1]) demo_store,
      Success \<lparr> data = [job_a], pagination = envelope 1 20 1 \<rparr>)"
proof -
  have p: "int_param list_default_page (q_page demo_filtered) = Some 1"
    and l: "int_param list_default_limit (q_limit demo_filtered) = Some 20"
    unfolding demo_filtered_params
    by (simp_all add: int_param_def list_default_page_def list_default_limit_def)
  have ok: "filter_ok demo_env (list_filter demo_filtered)"
    unfolding demo_filtered_filter by (rule full_time_ok)
  have pg: "page_of 1 20 [job_a] = [job_a]"
    by (simp add: page_of_def)
  have n: "length (filter (matches demo_env full_time_filter) demo_store) = 1"
    unfolding full_time_matches by simp
  have k: "make_pagination list_default_page (q_page demo_filtered) list_default_limit
             (q_limit demo_filtered) 1 = envelope 1 20 1"
    unfolding demo_filtered_params list_default_page_def list_default_limit_def
    by (rule pagination_default) simp
  have id: "job_id job_a = 1"
    by (simp add: job_a_def)
  from list_jobs_accepted[OF _ _ _ ok p l, of demo_store]
  show ?thesis
    unfolding demo_filtered_filter full_time_sorted n pg k
    by (simp add: id)
qed













lemma no_update_fails: "fails demo_env_no_update UpdateMany"
  by (simp add: demo_env_no_update_def)

lemma no_search_params: "sq_q no_search = None" "sq_sort no_search = None"
  by (simp_all add: no_search_def)

lemma search_text_engineer: "search_text (Some ''engineer'') = Some ''engineer''"
  by (simp add: search_text_def trim_def is_js_space_def)

lemma engineer_filter_ok: "filter_ok e engineer_filter"
  by (simp add: match_defs engineer_filter_def active_only_def)

lemma engineer_matches: "filter (matches demo_env engineer_filter) demo_store = [job_a, job_b]"
  by (simp add: match_defs engineer_filter_def active_only_def demo_store_def demo_env_def
        job_a_def job_b_def job_c_def)

lemma engineer_count: "length (filter (matches demo_env engineer_filter) demo_store) = 2"
  unfolding engineer_matches by simp

lemma demo_by_score:
  "matching_sorted demo_env demo_store engineer_filter [ByTextScore] = [job_a, job_b]"
  unfolding matching_sorted_def engineer_matches
  by (simp add: sort_by_def score_of_def engineer_filter_def active_only_def demo_env_def
        job_a_def job_b_def ci_key_def)

lemma engineer_scores:
  "add_score demo_env engineer_filter job_a = (job_a, Some 1)"
  "add_score demo_env engineer_filter job_b = (job_b, Some 1)"
  by (simp_all add: add_score_def score_of_def engineer_filter_def active_only_def demo_env_def
        job_a_def job_b_def ci_key_def)

lemma demo_text_params: "sq_page demo_text_search = Some ''2''"
  "sq_limit demo_text_search = Some ''1''" "sq_q demo_text_search = Some ''engineer''"
  "sq_filters demo_text_search = None" "sq_sort demo_text_search = None"
  by (simp_all add: demo_text_search_def no_search_def)

lemma demo_text_filter: "request_filter demo_env demo_text_search = engineer_filter"
  unfolding request_filter_def parsed_filters_def demo_text_params search_filter_def
    search_text_engineer
  by (simp add: no_filters_def truthy_def salary_filter_def salary_bound_def posted_filter_def
        engineer_filter_def active_only_def)

lemma demo_text_sort: "request_sort demo_text_search = [ByTextScore]"
  unfolding request_sort_def sort_param_def demo_text_params search_sort_def search_text_engineer
  by simp

lemma demo_text_success:
  "\<exists>st body. search_jobs demo_env demo_store demo_text_search = (st, Success body)"
proof -
  have p: "int_param search_default_page (sq_page demo_text_search) = Some 2"
    and l: "int_param search_default_limit (sq_limit demo_text_search) = Some 1"
    unfolding demo_text_params using reads_2 reads_1 by (simp_all add: reads_as_def)
  have ok: "filter_ok demo_env (request_filter demo_env demo_text_search)"
    unfolding demo_text_filter by (rule engineer_filter_ok)
  have s: "request_sort demo_text_search \<noteq> []"
    unfolding demo_text_sort by simp
  have n: "build_search_filter demo_env demo_text_search
             = Inr (request_filter demo_env demo_text_search)"
    by (rule build_search_filter_none) (rule demo_text_params)
  from search_jobs_accepted[OF _ _ _ ok s n p l, of demo_store]
  show ?thesis by simp
qed

lemma demo_text_all_params:
  "sq_page demo_text_all = None" "sq_limit demo_text_all = None"
  "sq_q demo_text_all = Some ''engineer''" "sq_sort demo_text_all = None"
  "sq_filters demo_text_all = None"
  by (simp_all add: demo_text_all_def no_search_def)

lemma demo_text_all_filter: "request_filter demo_env demo_text_all = engineer_filter"
  unfolding request_filter_def parsed_filters_def demo_text_all_params search_filter_def
    search_text_engineer
  by (simp add: no_filters_def truthy_def salary_filter_def salary_bound_def posted_filter_def
        engineer_filter_def active_only_def)

lemma demo_text_all_sort: "request_sort demo_text_all = [ByTextScore]"
  unfolding request_sort_def sort_param_def demo_text_all_params search_sort_def
    search_text_engineer
  by simp

lemma demo_text_all_eval:
  "search_jobs demo_env demo_store demo_text_all =
     (map (inc_views [1, 2]) demo_store,
      Success \<lparr> data = [(job_a, Some 1), (job_b, Some 1)], pagination = envelope 1 20 2,
                searchInfo = \<lparr> si_query = ''engineer'', si_filters = no_filters,
                               si_sort = ''relevance'', si_resultsCount = 2 \<rparr> \<rparr>)"
proof -
  have p: "int_param search_default_page (sq_page demo_text_all) = Some 1"
    and l: "int_param search_default_limit (sq_limit demo_text_all) = Some 20"
    unfolding demo_text_all_params
    by (simp_all add: int_param_def search_default_page_def search_default_limit_def)
  have ok: "filter_ok demo_env (request_filter demo_env demo_text_all)"
    unfolding demo_text_all_filter by (rule engineer_filter_ok)
  have s: "request_sort demo_text_all \<noteq> []"
    unfolding demo_text_all_sort by simp
  have nn: "build_search_filter demo_env demo_text_all
             = Inr (request_filter demo_env demo_text_all)"
    by (rule build_search_filter_none) (rule demo_text_all_params)
  have pg: "page_of 1 20 [job_a, job_b] = [job_a, job_b]"
    by (simp add: page_of_def)
  have k: "make_pagination search_default_page (sq_page demo_text_all)
             search_default_limit (sq_limit demo_text_all) 2 = envelope 1 20 2"
    unfolding demo_text_all_params search_default_page_def search_default_limit_def
    by (rule pagination_default) simp
  have id: "job_id job_a = 1" "job_id job_b = 2"
    by (simp_all add: job_a_def job_b_def)
  have sp: "sort_param demo_text_all = ''relevance''"
    unfolding sort_param_def demo_text_all_params by simp
  have pf: "parsed_filters demo_text_all = no_filters"
    unfolding parsed_filters_def demo_text_all_params by simp
  have q: "(case sq_q demo_text_all of None \<Rightarrow> [] | Some s \<Rightarrow> s) = ''engineer''"
    unfolding demo_text_all_params by simp
  from search_jobs_accepted[OF _ _ _ ok s nn p l, of demo_store]
  show ?thesis
    unfolding demo_text_all_filter demo_text_all_sort demo_by_score engineer_count pg k sp pf q
    by (simp add: id engineer_scores)
qed

lemma demo_filtered_search_params:
  "sq_page demo_filtered_search = None" "sq_limit demo_filtered_search = None"
  "sq_q demo_filtered_search = None" "sq_sort demo_filtered_search = Some ''postedDate''"
  "sq_filters demo_filtered_search = Some (FiltersObject
     (no_filters\<lparr> s_status := Some ''draft'', s_skills := Some [''sql''],
                  s_postedAfter := Some ''1970-01-02'' \<rparr>))"
  by (simp_all add: demo_filtered_search_def no_search_def)

lemma demo_filtered_search_filter: "request_filter demo_env demo_filtered_search = since_filter"
  unfolding request_filter_def parsed_filters_def demo_filtered_search_params search_filter_def
  by (simp add: no_filters_def truthy_def salary_filter_def salary_bound_def posted_filter_def
        search_text_def demo_env_def since_filter_def active_only_def)

lemma demo_filtered_search_sort:
  "request_sort demo_filtered_search = [ByField ''postedDate'' (- 1)]"
  unfolding request_sort_def sort_param_def demo_filtered_search_params search_sort_def
  by simp

lemma since_ok: "filter_ok e since_filter"
  by (simp add: match_defs since_filter_def active_only_def)

lemma since_matches: "filter (matches demo_env since_filter) demo_store = [job_a]"
  by (simp add: match_defs since_filter_def active_only_def demo_store_def demo_env_def
        job_a_def job_b_def job_c_def)

lemma since_sorted: "matching_sorted demo_env demo_store since_filter ks = [job_a]"
  unfolding matching_sorted_def since_matches by (simp add: sort_by_def)

lemma demo_filtered_search_eval:
  "search_jobs demo_env demo_store demo_filtered_search =
     (map (inc_views [1]) demo_store,
      Success \<lparr> data = [(job_a, None)], pagination = envelope 1 20 1,
                searchInfo = \<lparr> si_query = [], si_filters = parsed_filters demo_filtered_search,
                               si_sort = ''postedDate'', si_resultsCount = 1 \<rparr> \<rparr>)"
proof -
  have p: "int_param search_default_page (sq_page demo_filtered_search) = Some 1"
    and l: "int_param search_default_limit (sq_limit demo_filtered_search) = Some 20"
    unfolding demo_filtered_search_params
    by (simp_all add: int_param_def search_default_page_def search_default_limit_def)
  have ok: "filter_ok demo_env (request_filter demo_env demo_filtered_search)"
    unfolding demo_filtered_search_filter by (rule since_ok)
  have s: "request_sort demo_filtered_search \<noteq> []"
    unfolding demo_filtered_search_sort by simp
  have nn: "build_search_filter demo_env demo_filtered_search
             = Inr (request_filter demo_env demo_filtered_search)"
    by (rule build_search_filter_plain)
      (simp_all add: parsed_filters_def demo_filtered_search_params no_filters_def
         bound_throws_def)
  have pg: "page_of 1 20 [job_a] = [job_a]"
    by (simp add: page_of_def)
  have n: "length (filter (matches demo_env since_filter) demo_store) = 1"
    unfolding since_matches by simp
  have k: "make_pagination search_default_page (sq_page demo_filtered_search)
             search_default_limit (sq_limit demo_filtered_search) 1 = envelope 1 20 1"
    unfolding demo_filtered_search_params search_default_page_def search_default_limit_def
    by (rule pagination_default) simp
  have id: "job_id job_a = 1"
    by (simp add: job_a_def)
  have sc: "add_score demo_env since_filter job_a = (job_a, None)"
    by (simp add: add_score_def since_filter_def active_only_def)
  have sp: "sort_param demo_filtered_search = ''postedDate''"
    unfolding sort_param_def demo_filtered_search_params by simp
  have q: "(case sq_q demo_filtered_search of None \<Rightarrow> [] | Some s \<Rightarrow> s) = []"
    unfolding demo_filtered_search_params by simp
  from search_jobs_accepted[OF _ _ _ ok s nn p l, of demo_store]
  show ?thesis
    unfolding demo_filtered_search_filter since_sorted n pg k sp q
    by (simp add: id sc)
qed















lemma demo_create:
  "create_job demo_env demo_store 4 bd
     = (demo_store @ [pre_save (new_job 4 bd)], Success (pre_save (new_job 4 bd)))"
  by (simp add: create_job_def Let_def)

lemma demo_update_eval:
  "update_job demo_env demo_store 1 demo_update
     = (update_first 1 (apply_update demo_update) demo_store,
        Success (apply_update demo_update job_a))"
  by (simp add: update_job_def demo_store_def job_a_def)

lemma demo_suggest_params: "g_q demo_suggest = Some '' eng ''" "g_type demo_suggest = Some ''jobs''"
  "g_q demo_suggest_short = Some '' a ''" "g_q demo_suggest_all = Some ''acme''"
  by (simp_all add: demo_suggest_def demo_suggest_short_def demo_suggest_all_def)

lemma trim_eng: "trim '' eng '' = ''eng''" "trim '' a '' = ''a''" "trim ''acme'' = ''acme''"
  by (simp_all add: trim_def is_js_space_def)

section \<open>What a returned document satisfies\<close>







section \<open>Pagination\<close>

text \<open>
  Claim C2. For a listing or a search request whose \<open>page\<close> and \<open>limit\<close> denote positive
  integers \<open>p\<close> and \<open>l\<close>, a successful response carries the documents that follow the
  first \<open>(p - 1) * l\<close> of the sorted matching documents, at most \<open>l\<close> of them; its
  envelope reports as \<open>total\<close> the number of all matching documents, as \<open>totalPages\<close>
  the ceiling of \<open>total / l\<close>, \<open>hasNext\<close> exactly when \<open>p < totalPages\<close> and \<open>hasPrev\<close>
  exactly when \<open>1 < p\<close>.
\<close>

theorem page_window_and_envelope:
  assumes "0 < p" and "0 < l"
  shows "(reads_as list_default_page (q_page rq) p \<and> reads_as list_default_limit (q_limit rq) l
          \<and> list_jobs e store rq = (store', Success body)
          \<longrightarrow> data body = page_of p l (matching_sorted e store (list_filter rq) (list_sort rq))
              \<and> length (data body) \<le> nat l
              \<and> pagination body = envelope p l (length (filter (matches e (list_filter rq)) store)))
       \<and> (reads_as search_default_page (sq_page sq) p \<and> reads_as search_default_limit (sq_limit sq) l
          \<and> search_jobs e store sq = (store'', Success sbody)
          \<longrightarrow> map fst (data sbody) = page_of p l (matching_sorted e store (request_filter e sq) (request_sort sq))
              \<and> length (data sbody) \<le> nat l
              \<and> pagination sbody = envelope p l (length (filter (matches e (request_filter e sq)) store)))"
proof (intro conjI impI)
  assume h: "reads_as list_default_page (q_page rq) p \<and> reads_as list_default_limit (q_limit rq) l
          \<and> list_jobs e store rq = (store', Success body)"
  then have rp: "reads_as list_default_page (q_page rq) p"
    and rl: "reads_as list_default_limit (q_limit rq) l"
    and ok: "list_jobs e store rq = (store', Success body)"
    by simp_all
  from rp rl have ip: "int_param list_default_page (q_page rq) = Some p"
    and il: "int_param list_default_limit (q_limit rq) = Some l"
    by (simp_all add: reads_as_def)
  from list_jobs_SuccessD(1)[OF ok] show d: "data body = page_of p l (matching_sorted e store (list_filter rq) (list_sort rq))"
    unfolding ip il
    by (simp add: find_jobs_def window_find_page[OF assms] split: if_splits)
  show "length (data body) \<le> nat l"
    unfolding d by (simp add: page_of_def)
  from list_jobs_SuccessD(2)[OF ok] have t: "total (pagination body) = length (filter (matches e (list_filter rq)) store)"
    by (simp add: count_documents_def split: if_splits)
  from list_jobs_SuccessD(4)[OF ok] show "pagination body = envelope p l (length (filter (matches e (list_filter rq)) store))"
    unfolding t using make_pagination_envelope[OF rp rl assms(2)] by simp
next
  assume h: "reads_as search_default_page (sq_page sq) p \<and> reads_as search_default_limit (sq_limit sq) l
          \<and> search_jobs e store sq = (store'', Success sbody)"
  then have rp: "reads_as search_default_page (sq_page sq) p"
    and rl: "reads_as search_default_limit (sq_limit sq) l"
    and ok: "search_jobs e store sq = (store'', Success sbody)"
    by simp_all
  from rp rl have ip: "int_param search_default_page (sq_page sq) = Some p"
    and il: "int_param search_default_limit (sq_limit sq) = Some l"
    by (simp_all add: reads_as_def)
  from search_jobs_SuccessD(1)[OF ok]
  have "data sbody = map (add_score e (request_filter e sq))
          (page_of p l (matching_sorted e store (request_filter e sq) (request_sort sq)))"
    unfolding ip il
    by (auto simp: aggregate_search_def window_aggregate_page[OF assms] split: if_splits)
  then show d: "map fst (data sbody)
      = page_of p l (matching_sorted e store (request_filter e sq) (request_sort sq))"
    by (simp only: map_fst_add_score)
  have "length (data sbody) = length (map fst (data sbody))"
    by simp
  also have "\<dots> \<le> nat l"
    unfolding d by (simp add: page_of_def)
  finally show "length (data sbody) \<le> nat l" .
  from search_jobs_SuccessD(2)[OF ok] have t: "total (pagination sbody) = length (filter (matches e (request_filter e sq)) store)"
    by (simp add: count_documents_def split: if_splits)
  from search_jobs_SuccessD(4)[OF ok] show "pagination sbody = envelope p l (length (filter (matches e (request_filter e sq)) store))"
    unfolding t using make_pagination_envelope[OF rp rl assms(2)] by simp
qed

text \<open>The second page of size 1 of the example collection, listed and searched.\<close>

theorem page_window_and_envelope_witness:
  "reads_as list_default_page (q_page demo_page2) 2
   \<and> reads_as list_default_limit (q_limit demo_page2) 1
   \<and> (\<exists>st body. list_jobs demo_env demo_store demo_page2 = (st, Success body)
         \<and> data body = [job_a] \<and> total (pagination body) = 2
         \<and> totalPages (pagination body) = Num 2
         \<and> hasNext (pagination body) = False \<and> hasPrev (pagination body) = True)
   \<and> reads_as search_default_page (sq_page demo_text_search) 2
   \<and> reads_as search_default_limit (sq_limit demo_text_search) 1
   \<and> (\<exists>st body. search_jobs demo_env demo_store demo_text_search = (st, Success body)
         \<and> map fst (data body) = [job_b] \<and> total (pagination body) = 2
         \<and> totalPages (pagination body) = Num 2
         \<and> hasNext (pagination body) = False \<and> hasPrev (pagination body) = True)"
proof -
  have lp: "reads_as list_default_page (q_page demo_page2) 2"
    and ll: "reads_as list_default_limit (q_limit demo_page2) 1"
    unfolding demo_page2_params by (rule reads_2, rule reads_1)
  have sp: "reads_as search_default_page (sq_page demo_text_search) 2"
    and sl: "reads_as search_default_limit (sq_limit demo_text_search) 1"
    unfolding demo_text_params by (rule reads_2, rule reads_1)
  obtain st body where a: "list_jobs demo_env demo_store demo_page2 = (st, Success body)"
    using demo_page2_eval by blast
  obtain st' sbody where b: "search_jobs demo_env demo_store demo_text_search = (st', Success sbody)"
    using demo_text_success by blast
  have pos: "(0::int) < 2" "(0::int) < 1"
    by simp_all
  note t = page_window_and_envelope[OF pos, of demo_page2 demo_env demo_store st body
      demo_text_search st' sbody]
  from t lp ll a have
    "data body = page_of 2 1 (matching_sorted demo_env demo_store (list_filter demo_page2) (list_sort demo_page2))"
    and "pagination body = envelope 2 1 (length (filter (matches demo_env (list_filter demo_page2)) demo_store))"
    by blast+
  then have la: "data body = [job_a]" and lb: "pagination body = envelope 2 1 2"
    unfolding demo_page2_filter demo_page2_sort demo_by_date active_only_count
    by (simp_all add: page_of_def)
  from t sp sl b have
    "map fst (data sbody) = page_of 2 1 (matching_sorted demo_env demo_store (request_filter demo_env demo_text_search) (request_sort demo_text_search))"
    and "pagination sbody = envelope 2 1 (length (filter (matches demo_env (request_filter demo_env demo_text_search)) demo_store))"
    by blast+
  then have sa: "map fst (data sbody) = [job_b]" and sb: "pagination sbody = envelope 2 1 2"
    unfolding demo_text_filter demo_text_sort demo_by_score engineer_count
    by (simp_all add: page_of_def)
  have env: "total (envelope 2 1 2) = 2" "totalPages (envelope 2 1 2) = Num 2"
    "hasNext (envelope 2 1 2) = False" "hasPrev (envelope 2 1 2) = True"
    by (simp_all add: envelope_def)
  from a la lb env have "\<exists>st body. list_jobs demo_env demo_store demo_page2 = (st, Success body)
         \<and> data body = [job_a] \<and> total (pagination body) = 2
         \<and> totalPages (pagination body) = Num 2
         \<and> hasNext (pagination body) = False \<and> hasPrev (pagination body) = True"
    by auto
  moreover from b sa sb env have "\<exists>st body. search_jobs demo_env demo_store demo_text_search = (st, Success body)
         \<and> map fst (data body) = [job_b] \<and> total (pagination body) = 2
         \<and> totalPages (pagination body) = Num 2
         \<and> hasNext (pagination body) = False \<and> hasPrev (pagination body) = True"
    by auto
  ultimately show ?thesis
    using lp ll sp sl by blast
qed

section \<open>The status of listed and searched documents\<close>

text \<open>
  Claim C3. The filter of a listing constrains \<open>status\<close> to \<open>active\<close> when the request has
  no \<open>status\<close> parameter and to the supplied value otherwise. The filter of a search
  constrains \<open>status\<close> to \<open>active\<close> and does not depend on the status in the \<open>filters\<close>
  object; no document of a search response has another status.
\<close>

theorem status_of_listing_and_search:
  "f_status (list_filter rq) = (case q_status rq of None \<Rightarrow> ''active'' | Some s \<Rightarrow> s)
   \<and> f_status (request_filter e sq) = ''active''
   \<and> request_filter e (sq\<lparr> sq_filters := Some (FiltersObject (pf\<lparr> s_status := v \<rparr>)) \<rparr>)
       = request_filter e (sq\<lparr> sq_filters := Some (FiltersObject pf) \<rparr>)
   \<and> (list_jobs e store rq = (st, Success body)
      \<longrightarrow> (\<forall>j \<in> set (data body). status j = (case q_status rq of None \<Rightarrow> ''active'' | Some s \<Rightarrow> s)))
   \<and> (search_jobs e store sq = (st', Success sbody)
      \<longrightarrow> (\<forall>x \<in> set (data sbody). status (fst x) = ''active''))"
proof (intro conjI impI ballI)
  show "f_status (list_filter rq) = (case q_status rq of None \<Rightarrow> ''active'' | Some s \<Rightarrow> s)"
    by (simp add: list_filter_def)
  show "f_status (request_filter e sq) = ''active''"
    by (simp add: request_filter_def search_filter_def)
  show "request_filter e (sq\<lparr> sq_filters := Some (FiltersObject (pf\<lparr> s_status := v \<rparr>)) \<rparr>)
       = request_filter e (sq\<lparr> sq_filters := Some (FiltersObject pf) \<rparr>)"
    by (simp add: request_filter_def search_filter_def parsed_filters_def)
next
  fix j
  assume ok: "list_jobs e store rq = (st, Success body)" and j: "j \<in> set (data body)"
  from find_jobs_matches[OF list_jobs_SuccessD(1)[OF ok] j]
  show "status j = (case q_status rq of None \<Rightarrow> ''active'' | Some s \<Rightarrow> s)"
    by (simp add: matches_def list_filter_def)
next
  fix x
  assume ok: "search_jobs e store sq = (st', Success sbody)" and x: "x \<in> set (data sbody)"
  from aggregate_search_matches[OF search_jobs_SuccessD(1)[OF ok] x]
  show "status (fst x) = ''active''"
    by (simp add: matches_def request_filter_def search_filter_def)
qed

text \<open>
  A listing without \<open>status\<close> and a search whose \<open>filters\<close> carry \<open>status: draft\<close>: both return
  the active document.
\<close>

theorem status_of_listing_and_search_witness:
  "f_status (list_filter demo_filtered) = ''active''
   \<and> list_jobs demo_env demo_store demo_filtered =
     (map (inc_views [1]) demo_store,
      Success \<lparr> data = [job_a], pagination = envelope 1 20 1 \<rparr>)
   \<and> search_jobs demo_env demo_store demo_filtered_search =
     (map (inc_views [1]) demo_store,
      Success \<lparr> data = [(job_a, None)], pagination = envelope 1 20 1,
                searchInfo = \<lparr> si_query = [], si_filters = parsed_filters demo_filtered_search,
                               si_sort = ''postedDate'', si_resultsCount = 1 \<rparr> \<rparr>)
   \<and> s_status (parsed_filters demo_filtered_search) = Some ''draft''
   \<and> status job_a = ''active''"
proof -
  have d: "s_status (parsed_filters demo_filtered_search) = Some ''draft''"
    unfolding parsed_filters_def demo_filtered_search_params by simp
  from status_of_listing_and_search[of demo_filtered demo_env demo_filtered_search _ _ demo_store
      "map (inc_views [1]) demo_store" "\<lparr> data = [job_a], pagination = envelope 1 20 1 \<rparr>"
      "map (inc_views [1]) demo_store"
      "\<lparr> data = [(job_a, None)], pagination = envelope 1 20 1,
         searchInfo = \<lparr> si_query = [], si_filters = parsed_filters demo_filtered_search,
                        si_sort = ''postedDate'', si_resultsCount = 1 \<rparr> \<rparr>"]
    demo_filtered_eval demo_filtered_search_eval d
  show ?thesis
    by (simp add: demo_filtered_params)
qed

section \<open>Malformed bounds\<close>














section \<open>The relevance order\<close>

lemma sorted_insert_by_key:
  fixes k :: "'a \<Rightarrow> rat"
  assumes "sorted_wrt (\<lambda>a b. k b \<le> k a) ys"
  shows "sorted_wrt (\<lambda>a b. k b \<le> k a) (insert_sorted (\<lambda>a b. k b < k a) x ys)"
  using assms
proof (induction ys)
  case Nil
  then show ?case by simp
next
  case (Cons y ys)
  show ?case
  proof (cases "k x < k y")
    case True
    with Cons show ?thesis
      by (auto simp: set_insert_sorted)
  next
    case False
    with Cons.prems show ?thesis
      by (auto intro: order_trans)
  qed
qed

lemma sorted_sort_by_key:
  fixes k :: "'a \<Rightarrow> rat"
  shows "sorted_wrt (\<lambda>a b. k b \<le> k a) (sort_by (\<lambda>a b. k b < k a) xs)"
  by (induction xs) (simp_all add: sort_by_def sorted_insert_by_key)

lemma comes_before_score:
  "comes_before e f [ByTextScore] = (\<lambda>a b. score_of e f b < score_of e f a)"
  by (intro ext) simp

lemma sorted_by_score:
  "sorted_wrt (\<lambda>a b. score_of e f b \<le> score_of e f a) (matching_sorted e store f [ByTextScore])"
  unfolding matching_sorted_def comes_before_score by (rule sorted_sort_by_key)

lemma sorted_wrt_page: "sorted_wrt R xs \<Longrightarrow> sorted_wrt R (take n (drop m xs))"
  by simp

lemma window_aggregate_sorted:
  "window_aggregate s l xs = Inr ys \<Longrightarrow> sorted_wrt R xs \<Longrightarrow> sorted_wrt R ys"
  by (auto simp: window_aggregate_def sorted_wrt_page split: option.splits if_splits)

lemma trim_spaces: "list_all is_js_space s \<Longrightarrow> trim s = []"
  by (induction s) (simp_all add: trim_def)

lemma search_jobs_no_sort:
  "request_sort sq = [] \<Longrightarrow> search_jobs e store sq = (store, Failure 500 ''Search failed'')"
  by (simp add: search_jobs_def build_search_filter_def Let_def aggregate_search_def)

text \<open>
  Claim C5, amended. With a query that is not empty after trimming and the sort key
  \<open>relevance\<close>, the sort object has the single key \<open>score\<close>: the documents of a successful
  response match the text, carry their score and are ordered by descending score. There
  is no second key, so the order of documents with equal scores is the store's and
  \<open>postedDate\<close> does not break ties. With an absent, empty or white-space-only query no
  text condition and no score are added, and with the sort key \<open>relevance\<close> the sort object
  is then empty, which the \<open>$sort\<close> stage rejects: the search answers with status 500.
\<close>

theorem relevance_order:
  "(search_text q = Some t
      \<longrightarrow> search_sort q ''relevance'' = [ByTextScore]
          \<and> comes_before e f (search_sort q ''relevance'') a b = (score_of e f b < score_of e f a))
   \<and> (search_text (sq_q sq) = Some t \<and> sort_param sq = ''relevance''
       \<and> search_jobs e store sq = (st, Success body)
      \<longrightarrow> sorted_wrt (\<lambda>x y. score_of e (request_filter e sq) (fst y)
                               \<le> score_of e (request_filter e sq) (fst x)) (data body)
          \<and> (\<forall>x \<in> set (data body). text_score e t (fst x) \<noteq> None
                \<and> snd x = Some (score_of e (request_filter e sq) (fst x))))
   \<and> (list_all is_js_space s \<longrightarrow> search_text (Some s) = None)
   \<and> search_text None = None
   \<and> (search_text q = None
      \<longrightarrow> f_text (search_filter e q pf) = None
          \<and> add_score e (search_filter e q pf) j = (j, None)
          \<and> search_sort q ''relevance'' = [])
   \<and> (search_text (sq_q sq) = None \<and> sort_param sq = ''relevance''
      \<longrightarrow> search_jobs e store sq = (store, Failure 500 ''Search failed''))"
proof (intro conjI impI ballI)
  assume "search_text q = Some t"
  then show "search_sort q ''relevance'' = [ByTextScore]"
    and "comes_before e f (search_sort q ''relevance'') a b = (score_of e f b < score_of e f a)"
    by (simp_all add: search_sort_def)
next
  assume h: "search_text (sq_q sq) = Some t \<and> sort_param sq = ''relevance''
       \<and> search_jobs e store sq = (st, Success body)"
  then have q: "search_text (sq_q sq) = Some t" and r: "sort_param sq = ''relevance''"
    and ok: "search_jobs e store sq = (st, Success body)"
    by simp_all
  from q r have ks: "request_sort sq = [ByTextScore]"
    by (simp add: request_sort_def search_sort_def)
  from q have ft: "f_text (request_filter e sq) = Some t"
    by (simp add: request_filter_def search_filter_def)
  let ?f = "request_filter e sq"
  from search_jobs_SuccessD(1)[OF ok] obtain js where
    w: "window_aggregate (skip_of (int_param search_default_page (sq_page sq))
            (int_param search_default_limit (sq_limit sq)))
          (int_param search_default_limit (sq_limit sq))
          (matching_sorted e store ?f [ByTextScore]) = Inr js"
    and d: "data body = map (add_score e ?f) js"
    unfolding ks by (auto simp: aggregate_search_def split: if_splits sum.splits)
  from window_aggregate_sorted[OF w sorted_by_score]
  have "sorted_wrt (\<lambda>a b. score_of e ?f b \<le> score_of e ?f a) js" .
  then show "sorted_wrt (\<lambda>x y. score_of e ?f (fst y) \<le> score_of e ?f (fst x)) (data body)"
    unfolding d by (simp add: sorted_wrt_map add_score_def)
  fix x assume x: "x \<in> set (data body)"
  from aggregate_search_matches[OF search_jobs_SuccessD(1)[OF ok] x]
  have m: "matches e ?f (fst x)"
    by simp
  from m ft show "text_score e t (fst x) \<noteq> None"
    by (simp add: matches_def text_matches_def)
  from x d obtain j where "x = add_score e ?f j"
    by auto
  with ft show "snd x = Some (score_of e ?f (fst x))"
    by (simp add: add_score_def)
next
  assume "list_all is_js_space s"
  then show "search_text (Some s) = None"
    by (simp add: search_text_def trim_spaces)
next
  show "search_text None = None"
    by (simp add: search_text_def)
next
  assume n: "search_text q = None"
  then show "f_text (search_filter e q pf) = None"
    by (simp add: search_filter_def)
  then show "add_score e (search_filter e q pf) j = (j, None)"
    by (simp add: add_score_def)
  from n show "search_sort q ''relevance'' = []"
    by (simp add: search_sort_def)
next
  assume "search_text (sq_q sq) = None \<and> sort_param sq = ''relevance''"
  then have "request_sort sq = []"
    by (simp add: request_sort_def search_sort_def)
  then show "search_jobs e store sq = (store, Failure 500 ''Search failed'')"
    by (rule search_jobs_no_sort)
qed

text \<open>
  Claim C5 as stated fails on the example collection: both documents score 1 for
  \<open>engineer\<close>, and the response lists the one posted earlier first.
\<close>

theorem relevance_tie_counterexample:
  "search_text (sq_q demo_text_all) = Some ''engineer''
   \<and> sort_param demo_text_all = ''relevance''
   \<and> search_jobs demo_env demo_store demo_text_all =
     (map (inc_views [1, 2]) demo_store,
      Success \<lparr> data = [(job_a, Some 1), (job_b, Some 1)], pagination = envelope 1 20 2,
                searchInfo = \<lparr> si_query = ''engineer'', si_filters = no_filters,
                               si_sort = ''relevance'', si_resultsCount = 2 \<rparr> \<rparr>)
   \<and> postedDate job_a < postedDate job_b"
proof -
  have "search_text (sq_q demo_text_all) = Some ''engineer''"
    unfolding demo_text_all_params by (rule search_text_engineer)
  moreover have "sort_param demo_text_all = ''relevance''"
    unfolding sort_param_def demo_text_all_params by simp
  moreover have "postedDate job_a < postedDate job_b"
    by (simp add: job_a_def job_b_def)
  ultimately show ?thesis
    using demo_text_all_eval by simp
qed

text \<open>
  The amended claim at the search for \<open>engineer\<close>, at a query of two spaces and at the
  search without a query.
\<close>

theorem relevance_order_witness:
  "search_text (sq_q demo_text_all) = Some ''engineer''
   \<and> sort_param demo_text_all = ''relevance''
   \<and> search_jobs demo_env demo_store demo_text_all =
     (map (inc_views [1, 2]) demo_store,
      Success \<lparr> data = [(job_a, Some 1), (job_b, Some 1)], pagination = envelope 1 20 2,
                searchInfo = \<lparr> si_query = ''engineer'', si_filters = no_filters,
                               si_sort = ''relevance'', si_resultsCount = 2 \<rparr> \<rparr>)
   \<and> score_of demo_env (request_filter demo_env demo_text_all) job_b
       \<le> score_of demo_env (request_filter demo_env demo_text_all) job_a
   \<and> text_score demo_env ''engineer'' job_b \<noteq> None
   \<and> list_all is_js_space ''  '' \<and> search_text (Some ''  '') = None
   \<and> search_text (sq_q no_search) = None \<and> sort_param no_search = ''relevance''
   \<and> search_sort (sq_q no_search) ''relevance'' = []
   \<and> search_jobs demo_env demo_store no_search = (demo_store, Failure 500 ''Search failed'')"
proof -
  have a: "search_text (sq_q demo_text_all) = Some ''engineer''"
    unfolding demo_text_all_params by (rule search_text_engineer)
  have b: "sort_param demo_text_all = ''relevance''"
    unfolding sort_param_def demo_text_all_params by simp
  have c: "list_all is_js_space ''  ''"
    by (simp add: is_js_space_def)
  have d: "search_text (sq_q no_search) = None"
    unfolding no_search_params by (simp add: search_text_def)
  have e: "sort_param no_search = ''relevance''"
    unfolding sort_param_def no_search_params by simp
  note t = relevance_order[of "sq_q no_search" _ demo_env _ _ _ demo_text_all demo_store
      "map (inc_views [1, 2]) demo_store"
      "\<lparr> data = [(job_a, Some 1), (job_b, Some 1)], pagination = envelope 1 20 2,
         searchInfo = \<lparr> si_query = ''engineer'', si_filters = no_filters,
                        si_sort = ''relevance'', si_resultsCount = 2 \<rparr> \<rparr>" "''  ''"]
  note u = relevance_order[of _ _ demo_env _ _ _ no_search demo_store]
  from t a b demo_text_all_eval have
    "score_of demo_env (request_filter demo_env demo_text_all) job_b
       \<le> score_of demo_env (request_filter demo_env demo_text_all) job_a"
    and "text_score demo_env ''engineer'' job_b \<noteq> None"
    by simp_all
  moreover from t c have "search_text (Some ''  '') = None"
    by blast
  moreover from t d have "search_sort (sq_q no_search) ''relevance'' = []"
    by blast
  moreover from u d e have
    "search_jobs demo_env demo_store no_search = (demo_store, Failure 500 ''Search failed'')"
    by blast
  ultimately show ?thesis
    using a b c d e demo_text_all_eval by simp
qed

section \<open>The default page and limit\<close>

text \<open>
  Claim C6. A listing request without \<open>page\<close> and \<open>limit\<close> is answered with page 1 and
  limit 20, not limit 10: the destructuring default of \<open>limit\<close> in \<open>routes/jobs.js\<close> is 20.
  The defaults of a search are page 1 and limit 20, as claimed.
\<close>

theorem listing_default_limit:
  "q_page no_query = None \<and> q_limit no_query = None
   \<and> list_jobs demo_env demo_store no_query =
       (map (inc_views [2, 1]) demo_store,
        Success \<lparr> data = [job_b, job_a],
                  pagination = \<lparr> page = Some 1, limit = Some 20, total = 2, totalPages = Num 1,
                                 hasNext = False, hasPrev = False \<rparr> \<rparr>)
   \<and> int_param search_default_page None = Some 1
   \<and> int_param search_default_limit None = Some 20"
proof -
  have "envelope 1 20 2 = \<lparr> page = Some 1, limit = Some 20, total = 2, totalPages = Num 1,
                             hasNext = False, hasPrev = False \<rparr>"
    by (simp add: envelope_def ceiling_eq_iff)
  then show ?thesis
    using no_query_eval no_query_params
    by (simp add: int_param_def search_default_page_def search_default_limit_def)
qed

section \<open>The view counter\<close>

lemma list_jobs_update_fails:
  "fails e UpdateMany \<Longrightarrow> snd (list_jobs e store rq) = Failure 500 ''Failed to fetch jobs''"
  by (simp add: list_jobs_def Let_def update_many_views_def split: sum.splits)

lemma search_jobs_update_fails:
  "fails e UpdateMany \<Longrightarrow> snd (search_jobs e store sq) = Failure 500 ''Search failed''"
  by (simp add: search_jobs_def Let_def update_many_views_def split: sum.splits)

lemma inc_views_returned: "j \<in> set js \<Longrightarrow> inc_views (map job_id js) j = j\<lparr>views := views j + 1\<rparr>"
  by (simp add: inc_views_def)

text \<open>
  Claim C7, amended. In a successful listing or search response every returned document
  is a stored document (it carries the counter as it was read), and the collection after
  the request has the \<open>views\<close> of exactly the returned documents incremented by 1. The
  increment is awaited inside the handler's \<open>try\<close>: when \<open>updateMany\<close> fails, the handler
  answers with status 500, whether or not some counters were already incremented.
\<close>

theorem views_incremented_or_request_fails:
  "(list_jobs e store rq = (st, Success body)
      \<longrightarrow> st = map (inc_views (map job_id (data body))) store
          \<and> (\<forall>j \<in> set (data body). j \<in> set store
                \<and> inc_views (map job_id (data body)) j = j\<lparr>views := views j + 1\<rparr>))
   \<and> (fails e UpdateMany
      \<longrightarrow> snd (list_jobs e store rq) = Failure 500 ''Failed to fetch jobs'')
   \<and> (search_jobs e store sq = (st', Success sbody)
      \<longrightarrow> st' = map (inc_views (map (job_id \<circ> fst) (data sbody))) store
          \<and> (\<forall>x \<in> set (data sbody). fst x \<in> set store
                \<and> inc_views (map (job_id \<circ> fst) (data sbody)) (fst x)
                    = (fst x)\<lparr>views := views (fst x) + 1\<rparr>))
   \<and> (fails e UpdateMany
      \<longrightarrow> snd (search_jobs e store sq) = Failure 500 ''Search failed'')"
proof (intro conjI impI ballI)
  assume ok: "list_jobs e store rq = (st, Success body)"
  from list_jobs_SuccessD(3)[OF ok]
  show "st = map (inc_views (map job_id (data body))) store"
    by (simp add: update_many_views_def split: if_splits)
  fix j assume j: "j \<in> set (data body)"
  from find_jobs_matches[OF list_jobs_SuccessD(1)[OF ok] j] show "j \<in> set store"
    by simp
  from j show "inc_views (map job_id (data body)) j = j\<lparr>views := views j + 1\<rparr>"
    by (rule inc_views_returned)
next
  assume "fails e UpdateMany"
  then show "snd (list_jobs e store rq) = Failure 500 ''Failed to fetch jobs''"
    by (rule list_jobs_update_fails)
next
  assume ok: "search_jobs e store sq = (st', Success sbody)"
  from search_jobs_SuccessD(3)[OF ok]
  show "st' = map (inc_views (map (job_id \<circ> fst) (data sbody))) store"
    by (simp add: update_many_views_def split: if_splits)
  fix x assume x: "x \<in> set (data sbody)"
  from aggregate_search_matches[OF search_jobs_SuccessD(1)[OF ok] x] show "fst x \<in> set store"
    by simp
  from x have "fst x \<in> set (map fst (data sbody))"
    by simp
  from inc_views_returned[OF this]
  show "inc_views (map (job_id \<circ> fst) (data sbody)) (fst x) = (fst x)\<lparr>views := views (fst x) + 1\<rparr>"
    by simp
next
  assume "fails e UpdateMany"
  then show "snd (search_jobs e store sq) = Failure 500 ''Search failed''"
    by (rule search_jobs_update_fails)
qed

text \<open>
  Claim C7 as stated fails on a store whose \<open>updateMany\<close> fails: the listing and the
  search answer with status 500, not with a success.
\<close>

theorem views_counterexample:
  "fails demo_env_no_update UpdateMany
   \<and> snd (list_jobs demo_env_no_update demo_store demo_filtered)
       = Failure 500 ''Failed to fetch jobs''
   \<and> snd (search_jobs demo_env_no_update demo_store demo_filtered_search)
       = Failure 500 ''Search failed''"
  using no_update_fails list_jobs_update_fails[OF no_update_fails]
    search_jobs_update_fails[OF no_update_fails]
  by simp

text \<open>
  The amended claim on the example collection: once with a store that takes every call,
  once with the store whose \<open>updateMany\<close> fails.
\<close>

theorem views_incremented_or_request_fails_witness:
  "list_jobs demo_env demo_store demo_filtered =
     (map (inc_views [1]) demo_store,
      Success \<lparr> data = [job_a], pagination = envelope 1 20 1 \<rparr>)
   \<and> job_a \<in> set demo_store
   \<and> inc_views (map job_id [job_a]) job_a = job_a\<lparr>views := views job_a + 1\<rparr>
   \<and> search_jobs demo_env demo_store demo_filtered_search =
     (map (inc_views [1]) demo_store,
      Success \<lparr> data = [(job_a, None)], pagination = envelope 1 20 1,
                searchInfo = \<lparr> si_query = [], si_filters = parsed_filters demo_filtered_search,
                               si_sort = ''postedDate'', si_resultsCount = 1 \<rparr> \<rparr>)
   \<and> fails demo_env_no_update UpdateMany
   \<and> snd (list_jobs demo_env_no_update demo_store demo_filtered)
       = Failure 500 ''Failed to fetch jobs''
   \<and> snd (search_jobs demo_env_no_update demo_store demo_filtered_search)
       = Failure 500 ''Search failed''"
proof -
  note a = views_incremented_or_request_fails[of demo_env demo_store demo_filtered
      "map (inc_views [1]) demo_store" "\<lparr> data = [job_a], pagination = envelope 1 20 1 \<rparr>"
      demo_filtered_search "map (inc_views [1]) demo_store"
      "\<lparr> data = [(job_a, None)], pagination = envelope 1 20 1,
         searchInfo = \<lparr> si_query = [], si_filters = parsed_filters demo_filtered_search,
                        si_sort = ''postedDate'', si_resultsCount = 1 \<rparr> \<rparr>"]
  note b = views_incremented_or_request_fails[of demo_env_no_update demo_store demo_filtered
      _ _ demo_filtered_search]
  from a demo_filtered_eval have "job_a \<in> set demo_store"
    and "inc_views (map job_id [job_a]) job_a = job_a\<lparr>views := views job_a + 1\<rparr>"
    by simp_all
  moreover from b no_update_fails have
    "snd (list_jobs demo_env_no_update demo_store demo_filtered)
       = Failure 500 ''Failed to fetch jobs''"
    and "snd (search_jobs demo_env_no_update demo_store demo_filtered_search)
       = Failure 500 ''Search failed''"
    by blast+
  ultimately show ?thesis
    using demo_filtered_eval demo_filtered_search_eval no_update_fails by simp
qed

section \<open>The expiry date\<close>

lemma expiry_update_first:
  "u_expiryDate u = None \<Longrightarrow> map expiryDate (update_first i (apply_update u) js) = map expiryDate js"
  by (induction js) (simp_all add: apply_update_def or_old_opt_def)

lemma find_in_update_first:
  "find (\<lambda>x. job_id x = i) js = Some old \<Longrightarrow> g old \<in> set (update_first i g js)"
  by (induction js) (auto split: if_splits)

lemma late_body_params: "b_expiryDate late_body = None" "b_postedDate late_body = 8640000000000000"
  by (simp_all add: late_body_def demo_body_def)

text \<open>
  Claim C8, amended. A creation request without \<open>expiryDate\<close> whose \<open>postedDate\<close> plus 30
  days (2592000000 ms) lies within the range of \<open>Date\<close>, at most 8640000000000000 ms from
  the epoch, stores a document whose \<open>expiryDate\<close> is exactly that sum; when the sum lies
  beyond the range, the document is stored without \<open>expiryDate\<close>. A supplied
  \<open>expiryDate\<close> is stored unchanged; creation succeeds when the store takes the document.
  An update without \<open>expiryDate\<close> leaves the \<open>expiryDate\<close> of every stored document as it
  was, also when it changes \<open>postedDate\<close>.
\<close>

theorem expiry_date_on_create_and_update:
  "(b_expiryDate b = None \<and> \<bar>b_postedDate b + 2592000000\<bar> \<le> 8640000000000000
       \<and> create_job e store i b = (st, Success j)
      \<longrightarrow> st = store @ [j] \<and> postedDate j = b_postedDate b
          \<and> expiryDate j = Some (postedDate j + 2592000000))
   \<and> (b_expiryDate b = None \<and> 8640000000000000 < \<bar>b_postedDate b + 2592000000\<bar>
       \<and> create_job e store i b = (st, Success j)
      \<longrightarrow> st = store @ [j] \<and> postedDate j = b_postedDate b \<and> expiryDate j = None)
   \<and> (b_expiryDate b = Some d \<and> create_job e store i b = (st, Success j)
      \<longrightarrow> st = store @ [j] \<and> expiryDate j = Some d)
   \<and> (\<not> fails e Save \<longrightarrow> (\<exists>j. create_job e store i b = (store @ [j], Success j)))
   \<and> (u_expiryDate u = None
      \<longrightarrow> map expiryDate (fst (update_job e store i u)) = map expiryDate store)
   \<and> (u_expiryDate u = None \<and> update_job e store i u = (st', Success j')
      \<longrightarrow> (\<exists>old. find (\<lambda>x. job_id x = i) store = Some old
                \<and> expiryDate j' = expiryDate old \<and> j' \<in> set st'))"
proof (intro conjI impI)
  assume "b_expiryDate b = None \<and> \<bar>b_postedDate b + 2592000000\<bar> \<le> 8640000000000000
       \<and> create_job e store i b = (st, Success j)"
  then show "st = store @ [j]" and "postedDate j = b_postedDate b"
    and "expiryDate j = Some (postedDate j + 2592000000)"
    by (auto simp: create_job_def Let_def pre_save_def new_job_def thirty_days_def new_date_def
          max_time_def split: if_splits)
next
  assume "b_expiryDate b = None \<and> 8640000000000000 < \<bar>b_postedDate b + 2592000000\<bar>
       \<and> create_job e store i b = (st, Success j)"
  then show "st = store @ [j]" and "postedDate j = b_postedDate b" and "expiryDate j = None"
    by (auto simp: create_job_def Let_def pre_save_def new_job_def thirty_days_def new_date_def
          max_time_def split: if_splits)
next
  assume "b_expiryDate b = Some d \<and> create_job e store i b = (st, Success j)"
  then show "st = store @ [j]" and "expiryDate j = Some d"
    by (auto simp: create_job_def Let_def pre_save_def new_job_def split: if_splits)
next
  assume "\<not> fails e Save"
  then show "\<exists>j. create_job e store i b = (store @ [j], Success j)"
    by (simp add: create_job_def Let_def)
next
  assume "u_expiryDate u = None"
  then show "map expiryDate (fst (update_job e store i u)) = map expiryDate store"
    by (simp add: update_job_def expiry_update_first split: option.splits)
next
  assume h: "u_expiryDate u = None \<and> update_job e store i u = (st', Success j')"
  then obtain old where f: "find (\<lambda>x. job_id x = i) store = Some old"
    and s: "st' = update_first i (apply_update u) store" and j: "j' = apply_update u old"
    by (auto simp: update_job_def split: if_splits option.splits)
  from h j have "expiryDate j' = expiryDate old"
    by (simp add: apply_update_def or_old_opt_def)
  moreover from find_in_update_first[OF f, of "apply_update u"] s j have "j' \<in> set st'"
    by simp
  ultimately show "\<exists>old. find (\<lambda>x. job_id x = i) store = Some old
                \<and> expiryDate j' = expiryDate old \<and> j' \<in> set st'"
    using f by blast
qed

text \<open>
  Claim C8 as stated fails for a job posted at the last instant of the range of \<open>Date\<close>:
  the creation succeeds and the stored document has no \<open>expiryDate\<close>.
\<close>

theorem expiry_date_counterexample:
  "b_expiryDate late_body = None
   \<and> b_postedDate late_body = 8640000000000000
   \<and> create_job demo_env demo_store 4 late_body
       = (demo_store @ [pre_save (new_job 4 late_body)], Success (pre_save (new_job 4 late_body)))
   \<and> postedDate (pre_save (new_job 4 late_body)) = 8640000000000000
   \<and> expiryDate (pre_save (new_job 4 late_body)) = None"
  using demo_create[of late_body] late_body_params
  by (simp add: pre_save_def new_job_def new_date_def max_time_def thirty_days_def)

text \<open>
  The amended claim on the example collection: a creation without \<open>expiryDate\<close>, one at
  the end of the range of \<open>Date\<close>, one with \<open>expiryDate\<close>, and an update of title and
  \<open>postedDate\<close>.
\<close>

theorem expiry_date_on_create_and_update_witness:
  "b_expiryDate demo_body = None
   \<and> \<bar>b_postedDate demo_body + 2592000000\<bar> \<le> 8640000000000000
   \<and> create_job demo_env demo_store 4 demo_body
       = (demo_store @ [pre_save (new_job 4 demo_body)], Success (pre_save (new_job 4 demo_body)))
   \<and> postedDate (pre_save (new_job 4 demo_body)) = 345600000
   \<and> expiryDate (pre_save (new_job 4 demo_body)) = Some 2937600000
   \<and> b_expiryDate late_body = None
   \<and> 8640000000000000 < \<bar>b_postedDate late_body + 2592000000\<bar>
   \<and> create_job demo_env demo_store 4 late_body
       = (demo_store @ [pre_save (new_job 4 late_body)], Success (pre_save (new_job 4 late_body)))
   \<and> expiryDate (pre_save (new_job 4 late_body)) = None
   \<and> b_expiryDate (demo_body\<lparr> b_expiryDate := Some 7 \<rparr>) = Some 7
   \<and> expiryDate (pre_save (new_job 4 (demo_body\<lparr> b_expiryDate := Some 7 \<rparr>))) = Some 7
   \<and> \<not> fails demo_env Save
   \<and> u_expiryDate demo_update = None
   \<and> update_job demo_env demo_store 1 demo_update
       = (update_first 1 (apply_update demo_update) demo_store,
          Success (apply_update demo_update job_a))
   \<and> find (\<lambda>x. job_id x = 1) demo_store = Some job_a
   \<and> expiryDate (apply_update demo_update job_a) = expiryDate job_a
   \<and> map expiryDate (update_first 1 (apply_update demo_update) demo_store)
       = map expiryDate demo_store"
proof -
  have n: "b_expiryDate demo_body = None" and p: "b_postedDate demo_body = 345600000"
    by (simp_all add: demo_body_def)
  have r: "\<bar>b_postedDate demo_body + 2592000000\<bar> \<le> 8640000000000000"
    unfolding p by simp
  have r': "8640000000000000 < \<bar>b_postedDate late_body + 2592000000\<bar>"
    unfolding late_body_params by simp
  have u: "u_expiryDate demo_update = None"
    by (simp add: demo_update_def)
  have f: "find (\<lambda>x. job_id x = 1) demo_store = Some job_a"
    by (simp add: demo_store_def job_a_def)
  note t = expiry_date_on_create_and_update[where b = demo_body and e = demo_env
      and store = demo_store and i = 4
      and st = "demo_store @ [pre_save (new_job 4 demo_body)]"
      and j = "pre_save (new_job 4 demo_body)"]
  note l = expiry_date_on_create_and_update[where b = late_body and e = demo_env
      and store = demo_store and i = 4
      and st = "demo_store @ [pre_save (new_job 4 late_body)]"
      and j = "pre_save (new_job 4 late_body)"]
  note t' = expiry_date_on_create_and_update[where b = "demo_body\<lparr> b_expiryDate := Some 7 \<rparr>"
      and e = demo_env and store = demo_store and i = 4 and d = 7
      and st = "demo_store @ [pre_save (new_job 4 (demo_body\<lparr> b_expiryDate := Some 7 \<rparr>))]"
      and j = "pre_save (new_job 4 (demo_body\<lparr> b_expiryDate := Some 7 \<rparr>))"]
  note t'' = expiry_date_on_create_and_update[where e = demo_env and store = demo_store
      and i = 1 and u = demo_update
      and st' = "update_first 1 (apply_update demo_update) demo_store"
      and j' = "apply_update demo_update job_a"]
  from t n r demo_create[of demo_body] p have
    "postedDate (pre_save (new_job 4 demo_body)) = 345600000"
    and "expiryDate (pre_save (new_job 4 demo_body)) = Some 2937600000"
    by simp_all
  moreover from l late_body_params(1) r' demo_create[of late_body] have
    "expiryDate (pre_save (new_job 4 late_body)) = None"
    by blast
  moreover from t' demo_create[of "demo_body\<lparr> b_expiryDate := Some 7 \<rparr>"] have
    "expiryDate (pre_save (new_job 4 (demo_body\<lparr> b_expiryDate := Some 7 \<rparr>))) = Some 7"
    by simp
  moreover from t'' u demo_update_eval f have
    "expiryDate (apply_update demo_update job_a) = expiryDate job_a"
    and "map expiryDate (update_first 1 (apply_update demo_update) demo_store)
       = map expiryDate demo_store"
    by simp_all
  ultimately show ?thesis
    using n r r' u f late_body_params(1) demo_create[of demo_body] demo_create[of late_body]
      demo_update_eval
    by simp
qed

section \<open>Suggestions\<close>

lemma distinct_limit_throws: "distinct_limit e store field query n = Inl StoreError"
  by (simp add: distinct_limit_def query_limit_def)

lemma one_family_fails:
  "one_family e store field query = Failure 500 ''Failed to get suggestions''"
  by (simp add: one_family_def distinct_limit_throws)

lemma all_families_fails:
  "all_families e store query = Failure 500 ''Failed to get suggestions''"
  by (simp add: all_families_def distinct_limit_throws)

text \<open>
  Claim C9. A suggestions request without query text, or whose trimmed text has fewer than
  2 characters, is answered at once with a success carrying the empty list, whatever the
  store does. For a text of 2 or more trimmed characters the handler does not return
  values: every family is read by \<open>distinct(...).limit(n)\<close>, the call of \<open>limit\<close> throws,
  and the handler answers with status 500, whatever the collection holds.
\<close>

theorem suggestions_short_or_failed:
  "(g_q rq = None \<longrightarrow> suggestions e store rq = Success [])
   \<and> (g_q rq = Some q \<and> length (trim q) < 2 \<longrightarrow> suggestions e store rq = Success [])
   \<and> (g_q rq = Some q \<and> 2 \<le> length (trim q)
      \<longrightarrow> suggestions e store rq = Failure 500 ''Failed to get suggestions'')"
proof (intro conjI impI)
  assume "g_q rq = None"
  then show "suggestions e store rq = Success []"
    by (simp add: suggestions_def)
next
  assume "g_q rq = Some q \<and> length (trim q) < 2"
  then show "suggestions e store rq = Success []"
    by (simp add: suggestions_def)
next
  assume h: "g_q rq = Some q \<and> 2 \<le> length (trim q)"
  then have "q \<noteq> []"
    by (auto simp: trim_def)
  with h show "suggestions e store rq = Failure 500 ''Failed to get suggestions''"
    by (simp add: suggestions_def Let_def one_family_fails all_families_fails)
qed

text \<open>
  A request without text and one with the text \<open>a\<close> on a store that rejects every call;
  the title suggestions for \<open>eng\<close> and the suggestions of all families for \<open>acme\<close> on the
  example collection, which has active documents with the titles \<open>Senior Engineer\<close> and
  \<open>Engineer\<close> and the company \<open>Acme\<close>.
\<close>

theorem suggestions_short_or_failed_witness:
  "g_q \<lparr> g_q = None, g_type = None \<rparr> = None
   \<and> suggestions (demo_env\<lparr> fails := (\<lambda>c. True) \<rparr>) demo_store \<lparr> g_q = None, g_type = None \<rparr>
       = Success []
   \<and> g_q demo_suggest_short = Some '' a '' \<and> length (trim '' a '') < 2
   \<and> suggestions (demo_env\<lparr> fails := (\<lambda>c. True) \<rparr>) demo_store demo_suggest_short = Success []
   \<and> g_q demo_suggest = Some '' eng '' \<and> 2 \<le> length (trim '' eng '')
   \<and> suggestions demo_env demo_store demo_suggest = Failure 500 ''Failed to get suggestions''
   \<and> g_q demo_suggest_all = Some ''acme'' \<and> 2 \<le> length (trim ''acme'')
   \<and> suggestions demo_env demo_store demo_suggest_all
       = Failure 500 ''Failed to get suggestions''
   \<and> distinct_values demo_env demo_store (\<lambda>j. [title j]) ''eng''
       = Inr [''Senior Engineer'', ''Engineer'']"
proof -
  have a: "g_q demo_suggest_short = Some '' a '' \<and> length (trim '' a '') < 2"
    by (simp add: demo_suggest_params trim_eng)
  have b: "g_q demo_suggest = Some '' eng '' \<and> 2 \<le> length (trim '' eng '')"
    by (simp add: demo_suggest_params trim_eng)
  have c: "g_q demo_suggest_all = Some ''acme'' \<and> 2 \<le> length (trim ''acme'')"
    by (simp add: demo_suggest_params trim_eng)
  have d: "distinct_values demo_env demo_store (\<lambda>j. [title j]) ''eng''
       = Inr [''Senior Engineer'', ''Engineer'']"
    by (simp add: distinct_values_def pattern_ok_def regex_test_def plain_text_def plain_char_def
        ci_key_def demo_store_def job_a_def job_b_def job_c_def)
  note t = suggestions_short_or_failed[where e = "demo_env\<lparr> fails := (\<lambda>c. True) \<rparr>"
      and store = demo_store]
  note u = suggestions_short_or_failed[where e = demo_env and store = demo_store]
  from t[where rq = "\<lparr> g_q = None, g_type = None \<rparr>"] have
    "suggestions (demo_env\<lparr> fails := (\<lambda>c. True) \<rparr>) demo_store \<lparr> g_q = None, g_type = None \<rparr>
       = Success []"
    by simp
  moreover from t[where rq = demo_suggest_short and q = "'' a ''"] a have
    "suggestions (demo_env\<lparr> fails := (\<lambda>c. True) \<rparr>) demo_store demo_suggest_short = Success []"
    by blast
  moreover from u[where rq = demo_suggest and q = "'' eng ''"] b have
    "suggestions demo_env demo_store demo_suggest = Failure 500 ''Failed to get suggestions''"
    by blast
  moreover from u[where rq = demo_suggest_all and q = "''acme''"] c have
    "suggestions demo_env demo_store demo_suggest_all
       = Failure 500 ''Failed to get suggestions''"
    by blast
  ultimately show ?thesis
    using a b c d by simp
qed

section \<open>Statistics of the empty collection\<close>

text \<open>
  Claim C10. On an empty collection the statistics overview, when the store takes the
  aggregations, succeeds with all four totals 0 and the three breakdown lists empty.
\<close>

theorem empty_collection_statistics:
  "\<not> fails e Aggregate
   \<longrightarrow> stats_overview e [] =
         Success \<lparr> overview = \<lparr> totalJobs = 0, activeJobs = 0, totalViews = 0,
                                totalApplications = 0 \<rparr>,
                   jobTypes = [], remoteOptions = [], topIndustries = [] \<rparr>"
  by (simp add: stats_overview_def group_overview_def by_count_desc_def group_count_def
        sort_by_def industries_set_def)

text \<open>
  The overview of the empty collection on the example store.
\<close>

theorem empty_collection_statistics_witness:
  "\<not> fails demo_env Aggregate
   \<and> stats_overview demo_env [] =
         Success \<lparr> overview = \<lparr> totalJobs = 0, activeJobs = 0, totalViews = 0,
                                totalApplications = 0 \<rparr>,
                   jobTypes = [], remoteOptions = [], topIndustries = [] \<rparr>"
  using empty_collection_statistics[of demo_env] by simp

end
